theory Spec2Isabelle
  imports Main "HOL-Library.Sublist"
begin

section \<open>Python values: exceptions, dictionaries, strings\<close>

text \<open>
  A call either returns or does not. \<open>Raised c t\<close> is a Python exception of class \<open>c\<close>
  with text \<open>t\<close> (what \<^verbatim>\<open>except BaseException\<close> catches); \<open>Segfault\<close> is the death of the
  whole process inside the modelling engine, which no handler sees (the module's
  docstring: "Pyrosetta will throw a segmentation fault if anything is done incorrectly").
\<close>

datatype failure = Raised string string | Segfault

text \<open>
  A \<open>dict\<close> keeps its keys in insertion order; \<^verbatim>\<open>d[k] = v\<close> replaces the value of a key
  that is present, in place, and appends a key that is not.
\<close>

fun dict_set :: "'k \<Rightarrow> 'v \<Rightarrow> ('k \<times> 'v) list \<Rightarrow> ('k \<times> 'v) list" where
  "dict_set k v [] = [(k, v)]"
| "dict_set k v (kv # kvs) = (if fst kv = k then (k, v) # kvs else kv # dict_set k v kvs)"

definition dict_get :: "(string \<times> 'v) list \<Rightarrow> string \<Rightarrow> failure + 'v" where
  "dict_get d k = (case map_of d k of None \<Rightarrow> Inl (Raised ''KeyError'' k) | Some v \<Rightarrow> Inr v)"

definition dict_has :: "('k \<times> 'v) list \<Rightarrow> 'k \<Rightarrow> bool" where
  "dict_has d k \<longleftrightarrow> k \<in> set (map fst d)"

text \<open>
  Characters are bytes here. The regular-expression classes \<^verbatim>\<open>\d\<close> and \<^verbatim>\<open>\w\<close> and
  \<^verbatim>\<open>str.upper\<close> are modelled on ASCII, which is what PDB files and the variant
  descriptions hold.
\<close>

definition is_digit :: "char \<Rightarrow> bool" where
  "is_digit c \<longleftrightarrow> 48 \<le> (of_char c :: nat) \<and> (of_char c :: nat) \<le> 57"

definition is_word :: "char \<Rightarrow> bool" where
  "is_word c \<longleftrightarrow> is_digit c
     \<or> (65 \<le> (of_char c :: nat) \<and> (of_char c :: nat) \<le> 90)
     \<or> (97 \<le> (of_char c :: nat) \<and> (of_char c :: nat) \<le> 122)
     \<or> c = CHR ''_''"

definition upper_char :: "char \<Rightarrow> char" where
  "upper_char c =
     (if 97 \<le> (of_char c :: nat) \<and> (of_char c :: nat) \<le> 122
      then char_of ((of_char c :: nat) - 32) else c)"

definition upper :: "string \<Rightarrow> string" where
  "upper s = map upper_char s"

definition digits_value :: "string \<Rightarrow> int" where
  "digits_value ds = foldl (\<lambda>n c. 10 * n + (int (of_char c) - 48)) 0 ds"


section \<open>The external collaborators\<close>

text \<open>
  PyRosetta, PyMOL and Biopython are not part of the repository. Every call into them is
  a field of a record that the functions below take as a parameter; nothing is assumed
  about these fields except where a theorem states it. \<open>'p\<close> is the content of a pose
  object and \<open>'e\<close> the type of energies and weights (Python floats); only \<open>-\<close>, \<open><\<close>
  and \<open>0\<close> of \<open>'e\<close> are used, so no law of arithmetic enters a proof.
\<close>

record ('p, 'e) scorefxn =
  sfx_score :: "'p \<Rightarrow> 'e"                       \<comment> \<open>\<^verbatim>\<open>scorefxn(pose)\<close>, the total energy\<close>
  get_weight :: "string \<Rightarrow> 'e"                  \<comment> \<open>\<^verbatim>\<open>scorefxn.get_weight(ScoreType.<name>)\<close>\<close>
  score_by_scoretype :: "'p \<Rightarrow> string \<Rightarrow> 'e"
  get_sub_score :: "'p \<Rightarrow> bool list \<Rightarrow> 'e"
  get_name :: string

text \<open>
  The \<open>FastRelax\<close> mover with the settings that \<open>ready_relax\<close> touches. The movemap is
  the pair of per-residue vectors given to \<^verbatim>\<open>set_bb\<close> and \<^verbatim>\<open>set_chi\<close>.
\<close>

record fast_relax =
  relax_cycles :: int
  movemap_bb :: "bool list"
  movemap_chi :: "bool list"
  cartesian :: bool
  minimize_bond_angles :: bool
  minimize_bond_lengths :: bool
  movemap_disables_packing_of_fixed_chi_positions :: bool

text \<open>
  The engine. \<open>pdb2pose\<close> answers \<open>0\<close> for a residue that the pose does not have (the
  source tests \<^verbatim>\<open>r == 0\<close> for "missing density"). \<open>FastRelax\<close> is the constructor with the
  engine's own defaults for the flags. \<open>mutate_residue_pack\<close> is
  \<^verbatim>\<open>pyrosetta.toolbox.mutate_residue\<close> with \<^verbatim>\<open>pack_radius=4.0\<close> and the score function,
  \<open>mutate_residue\<close> the same call without them. \<open>NeighborhoodResidueSelector\<close> is the
  selector built from a \<open>ResidueIndexSelector\<close> of the given index, the radius and the
  flag \<open>include_focus_in_subset\<close>, applied to a pose. Calls that change a pose, load one
  or select on one can fail; read-outs are total.
\<close>

record ('p, 'e) rosetta =
  create_score_function :: "string \<Rightarrow> failure + ('p, 'e) scorefxn"
  pose_from_pdbstring :: "string list \<Rightarrow> string \<Rightarrow> failure + 'p"
  total_residue :: "'p \<Rightarrow> nat"
  pdb2pose :: "'p \<Rightarrow> string \<Rightarrow> int \<Rightarrow> nat"
  pose2pdb :: "'p \<Rightarrow> nat \<Rightarrow> string"
  dump_pdb :: "'p \<Rightarrow> string"
  FastRelax :: "('p, 'e) scorefxn \<Rightarrow> int \<Rightarrow> fast_relax"
  has_disables_packing :: bool
  relax_apply :: "fast_relax \<Rightarrow> ('p, 'e) scorefxn \<Rightarrow> 'p \<Rightarrow> failure + 'p"
  mutate_residue :: "'p \<Rightarrow> nat \<Rightarrow> string \<Rightarrow> failure + 'p"
  mutate_residue_pack :: "('p, 'e) scorefxn \<Rightarrow> 'p \<Rightarrow> nat \<Rightarrow> string \<Rightarrow> failure + 'p"
  MutateResidue :: "nat \<Rightarrow> string \<Rightarrow> 'p \<Rightarrow> failure + 'p"
  NeighborhoodResidueSelector :: "'p \<Rightarrow> nat \<Rightarrow> int \<Rightarrow> bool \<Rightarrow> failure + bool list"
  CA_rmsd :: "'p \<Rightarrow> 'p \<Rightarrow> 'e"
  residue_total_energies :: "'p \<Rightarrow> nat \<Rightarrow> (string \<times> 'e) list"
  nonzero_weighted_scoretypes :: "('p, 'e) scorefxn \<Rightarrow> string list"

text \<open>
  An atom of the model that PyMOL returns: \<open>atom.resi\<close> is a string (it can carry an
  insertion code), \<open>atom.chain\<close> the chain letter.
\<close>

record atom =
  atom_resi :: string
  atom_chain :: string

text \<open>
  \<open>get_model pdbblock chain resi radius\<close> is the answer of
  \<^verbatim>\<open>pymol.cmd.get_model(sele).atom\<close> after \<^verbatim>\<open>read_pdbstr(pdbblock, 'blockprotein')\<close> for
  \<^verbatim>\<open>sele = f"name CA and (byres chain {chain} and resi {resi} around {radius})"\<close>;
  \<open>seq3\<close> is \<^verbatim>\<open>Bio.SeqUtils.seq3\<close>.
\<close>

record toolkit =
  get_model :: "string \<Rightarrow> string \<Rightarrow> int \<Rightarrow> int \<Rightarrow> atom list"
  seq3 :: "string \<Rightarrow> string"


section \<open>The Mutator\<close>

text \<open>\<^verbatim>\<open>Target = namedtuple('target', ['resi', 'chain'])\<close>\<close>

record target =
  resi :: int
  chain :: string

text \<open>
  Pose objects are mutable and shared by reference: \<open>relax.apply(self.pose)\<close> and
  \<open>mutate_residue(self.pose, ...)\<close> change the object in place, \<open>pose.clone()\<close> makes a
  new one. The state of a \<open>Mutator\<close> therefore holds a store of pose objects (\<open>heap\<close>,
  with \<open>fresh\<close> the next unused address) and the attributes \<open>pose\<close> and \<open>native\<close> are
  addresses. \<open>native\<close> and \<open>relax\<close> do not exist until they are first assigned
  (\<open>None\<close>); \<open>pdb2pose_of\<close> is the pose whose \<open>pdb_info().pdb2pose\<close> was bound to
  \<open>self._pdb2pose\<close> by \<open>load_pose\<close>. A \<open>vector1_bool\<close> is a list whose element
  \<open>i - 1\<close> is the flag of pose residue \<open>i\<close>.
\<close>

type_synonym addr = nat

record ('p, 'e) mutator =
  scorefxn :: "('p, 'e) scorefxn"
  scores :: "(string \<times> 'e) list"
  cycles :: int
  radius :: int
  target :: target
  pdbblock :: string
  params_filenames :: "string list"
  pose :: addr
  native :: "addr option"
  pdb2pose_of :: addr
  neighbour_vector :: "bool list"
  relax :: "fast_relax option"
  heap :: "addr \<Rightarrow> 'p"
  fresh :: addr

definition clone :: "addr \<Rightarrow> ('p, 'e) mutator \<Rightarrow> addr \<times> ('p, 'e) mutator" where
  "clone a m = (fresh m, m\<lparr>heap := (heap m)(fresh m := heap m a), fresh := Suc (fresh m)\<rparr>)"

text \<open>\<^verbatim>\<open>self.native = self.pose.clone()\<close>, as one step on the state.\<close>

definition native_clone :: "('p, 'e) mutator \<Rightarrow> ('p, 'e) mutator" where
  "native_clone m = (case clone (pose m) m of (a, m') \<Rightarrow> m'\<lparr>native := Some a\<rparr>)"

text \<open>
  \<^verbatim>\<open>
  def target_pdb2pose(self, target: Target) -> int:
      return self._pdb2pose(chain=target.chain, res=target.resi)
  \<close>
\<close>

definition target_pdb2pose ::
  "('p, 'e) rosetta \<Rightarrow> ('p, 'e) mutator \<Rightarrow> target \<Rightarrow> nat" where
  "target_pdb2pose E m t = pdb2pose E (heap m (pdb2pose_of m)) (chain t) (resi t)"

text \<open>
  \<^verbatim>\<open>
  def mark(self, label: str) -> Dict:
      self.scores[label] = self.scorefxn(self.pose)
      return self.scores
  \<close>
\<close>

definition mark :: "string \<Rightarrow> ('p, 'e) mutator \<Rightarrow> ('p, 'e) mutator" where
  "mark label m =
     m\<lparr>scores := dict_set label (sfx_score (scorefxn m) (heap m (pose m))) (scores m)\<rparr>"

text \<open>
  \<^verbatim>\<open>
  res = int(re.match('\d+', atom.resi).group())
  \<close>
  \<open>re.match\<close> answers \<open>None\<close> when the string does not start with a digit (a negative
  residue number), and \<open>None.group()\<close> raises.
\<close>

definition resi_number :: "string \<Rightarrow> failure + int" where
  "resi_number s =
     (let ds = takeWhile is_digit s
      in if ds = [] then Inl (Raised ''AttributeError'' ''NoneType object has no attribute group'')
         else Inr (digits_value ds))"

fun atoms2targets :: "atom list \<Rightarrow> failure + target list" where
  "atoms2targets [] = Inr []"
| "atoms2targets (a # as) =
     (case resi_number (atom_resi a) of
        Inl f \<Rightarrow> Inl f
      | Inr res \<Rightarrow>
          (case atoms2targets as of
             Inl f \<Rightarrow> Inl f
           | Inr ts \<Rightarrow> Inr (\<lparr>resi = res, chain = atom_chain a\<rparr> # ts)))"

text \<open>
  \<^verbatim>\<open>
  def calculate_neighbours_in_pymol(self, radius: int = 4) -> List[Target]:
      with pymol2.PyMOL() as pymol:
          pymol.cmd.read_pdbstr(self.pdbblock, 'blockprotein')
          sele = f"name CA and (byres chain {self.target.chain} and resi {self.target.resi} around {radius})"
          atoms = pymol.cmd.get_model(sele)
          neighbours = []
          for atom in atoms.atom:
              res = int(re.match('\d+', atom.resi).group())
              neighbours.append(Target(resi=res, chain=atom.chain))
      return neighbours
  \<close>
  The list holds what the selection returned and nothing else.
\<close>

definition calculate_neighbours_in_pymol ::
  "toolkit \<Rightarrow> ('p, 'e) mutator \<Rightarrow> int \<Rightarrow> failure + target list" where
  "calculate_neighbours_in_pymol Y m rad =
     atoms2targets (get_model Y (pdbblock m) (chain (target m)) (resi (target m)) rad)"

text \<open>
  \<^verbatim>\<open>neighbours[r] = True\<close> on a \<open>vector1_bool\<close>: the valid indices are \<open>1 .. len\<close>; the
  binding raises \<open>IndexError\<close> for any other index, \<open>0\<close> included.
\<close>

definition vector1_set :: "bool list \<Rightarrow> nat \<Rightarrow> bool \<Rightarrow> failure + bool list" where
  "vector1_set v r b =
     (if 1 \<le> r \<and> r \<le> length v then Inr (v[r - 1 := b])
      else Inl (Raised ''IndexError'' ''''))"

definition vector1_get :: "bool list \<Rightarrow> nat \<Rightarrow> bool" where
  "vector1_get v r \<longleftrightarrow> 1 \<le> r \<and> r \<le> length v \<and> v ! (r - 1)"

text \<open>
  \<^verbatim>\<open>
  def targets2vector(self, targets: List[Target]) -> pyrosetta.rosetta.utility.vector1_bool:
      neighbours = pyrosetta.rosetta.utility.vector1_bool(self.pose.total_residue())
      for target in targets:
          r = self.target_pdb2pose(target)
          neighbours[r] = True
      return neighbours
  \<close>
  There is no test of \<open>r\<close> between the resolution and the assignment.
\<close>

fun targets2vector_loop ::
  "('p, 'e) rosetta \<Rightarrow> ('p, 'e) mutator \<Rightarrow> target list \<Rightarrow> bool list \<Rightarrow> failure + bool list" where
  "targets2vector_loop E m [] neighbours = Inr neighbours"
| "targets2vector_loop E m (t # ts) neighbours =
     (case vector1_set neighbours (target_pdb2pose E m t) True of
        Inl f \<Rightarrow> Inl f
      | Inr neighbours' \<Rightarrow> targets2vector_loop E m ts neighbours')"

definition targets2vector ::
  "('p, 'e) rosetta \<Rightarrow> ('p, 'e) mutator \<Rightarrow> target list \<Rightarrow> failure + bool list" where
  "targets2vector E m targets =
     targets2vector_loop E m targets (replicate (total_residue E (heap m (pose m))) False)"

text \<open>
  \<^verbatim>\<open>
  def calculate_neighbours_in_pyrosetta(self, radius: int = 12) -> vector1_bool:
      r = self.target_pdb2pose(self.target)
      resi_sele = ResidueIndexSelector(r)
      neigh_sele = NeighborhoodResidueSelector(resi_sele, radius, True)
      return neigh_sele.apply(self.pose)
  \<close>
\<close>

definition calculate_neighbours_in_pyrosetta ::
  "('p, 'e) rosetta \<Rightarrow> ('p, 'e) mutator \<Rightarrow> int \<Rightarrow> failure + bool list" where
  "calculate_neighbours_in_pyrosetta E m rad =
     NeighborhoodResidueSelector E (heap m (pose m)) (target_pdb2pose E m (target m)) rad True"

text \<open>
  \<^verbatim>\<open>
  def ready_relax(self, cycles: int = 1):
      self.relax = pyrosetta.rosetta.protocols.relax.FastRelax(self.scorefxn, cycles)
      self.movemap = pyrosetta.MoveMap()
      self.movemap.set_bb(self.neighbour_vector)
      self.movemap.set_chi(self.neighbour_vector)
      self.relax.set_movemap(self.movemap)
      if self.scorefxn.get_weight(pyrosetta.rosetta.core.scoring.ScoreType.cart_bonded) > 0:
          # it's cartesian!
          self.relax.cartesian(True)
          self.relax.minimize_bond_angles(True)
          self.relax.minimize_bond_lengths(True)
      if hasattr(self.relax, 'set_movemap_disables_packing_of_fixed_chi_positions'):
          self.relax.set_movemap_disables_packing_of_fixed_chi_positions(True)
      else:
          print("UPDATE YOUR PYROSETTA NOW.")
      return self.relax
  \<close>
\<close>

definition ready_relax ::
  "('p, 'e::{zero,ord}) rosetta \<Rightarrow> int \<Rightarrow> ('p, 'e) mutator \<Rightarrow> ('p, 'e) mutator" where
  "ready_relax E cyc m =
     (let r0 = FastRelax E (scorefxn m) cyc;
          r1 = r0\<lparr>movemap_bb := neighbour_vector m, movemap_chi := neighbour_vector m\<rparr>;
          r2 = (if 0 < get_weight (scorefxn m) ''cart_bonded''
                then r1\<lparr>cartesian := True, minimize_bond_angles := True,
                        minimize_bond_lengths := True\<rparr>
                else r1);
          r3 = (if has_disables_packing E
                then r2\<lparr>movemap_disables_packing_of_fixed_chi_positions := True\<rparr>
                else r2)
      in m\<lparr>relax := Some r3\<rparr>)"

text \<open>
  \<^verbatim>\<open>
  def load_pose(self) -> pyrosetta.Pose:
      pose = pyrosetta.Pose()
      if self.params_filenames:
          params_paths = pyrosetta.rosetta.utility.vector1_string()
          params_paths.extend(self.params_filenames)
          pyrosetta.generate_nonstandard_residue_set(pose, params_paths)
      pyrosetta.rosetta.core.import_pose.pose_from_pdbstring(pose, self.pdbblock)
      self._pdb2pose = pose.pdb_info().pdb2pose
      return pose
  \<close>
  and the constructor, which stores the arguments, loads the pose, records the snapshot
  \<open>'raw'\<close>, computes the neighbourhood with one of the two strategies and prepares the
  relax:
  \<^verbatim>\<open>
  self.scorefxn = pyrosetta.create_score_function(scorefxn_name)
  self.scores = {}  # gets filled by .mark()
  self.cycles = cycles
  self.radius = radius
  self.target = Target(target_resi, target_chain)
  self.pdbblock = pdbblock
  self.params_filenames = params_filenames
  self.pose = self.load_pose()  # self.pose is intended as the damageable version.
  self.mark('raw')  # mark scores the self.pose
  if use_pymol_for_neighbours:
      neighbours = self.calculate_neighbours_in_pymol(self.radius)
      self.neighbour_vector = self.targets2vector(neighbours)
  else:
      self.neighbour_vector = self.calculate_neighbours_in_pyrosetta(self.radius)
  self.ready_relax(self.cycles)
  \<close>
  The options that the constructor sets from the name of the score function are part of
  what \<open>create_score_function\<close> answers for that name. The loaded pose is object \<open>0\<close>
  of the store; \<open>neighbour_vector\<close> holds \<open>[]\<close> until it is assigned, and is not read
  before.
\<close>

record kwargs =
  kw_pdbblock :: string
  kw_target_resi :: int
  kw_target_chain :: string
  kw_cycles :: int
  kw_radius :: int
  kw_params_filenames :: "string list"
  kw_scorefxn_name :: string
  kw_use_pymol_for_neighbours :: bool

definition Mutator_init ::
  "('p, 'e::{zero,ord}) rosetta \<Rightarrow> toolkit \<Rightarrow> kwargs \<Rightarrow> failure + ('p, 'e) mutator" where
  "Mutator_init E Y kw =
     (case create_score_function E (kw_scorefxn_name kw) of
        Inl f \<Rightarrow> Inl f
      | Inr sfx \<Rightarrow>
     (case pose_from_pdbstring E (kw_params_filenames kw) (kw_pdbblock kw) of
        Inl f \<Rightarrow> Inl f
      | Inr p \<Rightarrow>
     (let m0 = \<lparr>scorefxn = sfx, scores = [], cycles = kw_cycles kw, radius = kw_radius kw,
                target = \<lparr>resi = kw_target_resi kw, chain = kw_target_chain kw\<rparr>,
                pdbblock = kw_pdbblock kw, params_filenames = kw_params_filenames kw,
                pose = 0, native = None, pdb2pose_of = 0, neighbour_vector = [],
                relax = None, heap = (\<lambda>_. p), fresh = 1\<rparr>;
          m1 = mark ''raw'' m0
      in (case (if kw_use_pymol_for_neighbours kw
                then (case calculate_neighbours_in_pymol Y m1 (radius m1) of
                        Inl f \<Rightarrow> Inl f
                      | Inr neighbours \<Rightarrow> targets2vector E m1 neighbours)
                else calculate_neighbours_in_pyrosetta E m1 (radius m1)) of
            Inl f \<Rightarrow> Inl f
          | Inr v \<Rightarrow> Inr (ready_relax E (cycles m1) (m1\<lparr>neighbour_vector := v\<rparr>))))))"

text \<open>
  \<^verbatim>\<open>
  def mutate(self, aa):
      res = self.target_pdb2pose(self.target)
      if res == 0:
          raise ValueError('Residue not in structure')
      pyrosetta.toolbox.mutate_residue(self.pose, res, aa)

  def do_relax(self):
      self.relax.apply(self.pose)
  \<close>
  Both change the object \<open>self.pose\<close> in place.
\<close>

definition mutate ::
  "('p, 'e) rosetta \<Rightarrow> string \<Rightarrow> ('p, 'e) mutator \<Rightarrow> failure + ('p, 'e) mutator" where
  "mutate E aa m =
     (let res = target_pdb2pose E m (target m)
      in if res = 0 then Inl (Raised ''ValueError'' ''Residue not in structure'')
         else (case mutate_residue E (heap m (pose m)) res aa of
                 Inl f \<Rightarrow> Inl f
               | Inr p \<Rightarrow> Inr (m\<lparr>heap := (heap m)(pose m := p)\<rparr>)))"

definition do_relax ::
  "('p, 'e) rosetta \<Rightarrow> ('p, 'e) mutator \<Rightarrow> failure + ('p, 'e) mutator" where
  "do_relax E m =
     (case relax m of
        None \<Rightarrow> Inl (Raised ''AttributeError'' ''relax'')
      | Some r \<Rightarrow>
          (case relax_apply E r (scorefxn m) (heap m (pose m)) of
             Inl f \<Rightarrow> Inl f
           | Inr p \<Rightarrow> Inr (m\<lparr>heap := (heap m)(pose m := p)\<rparr>)))"

text \<open>\<open>output_pdbblock\<close> dumps a pose, \<open>self.pose\<close> when none is given.\<close>

definition output_pdbblock :: "('p, 'e) rosetta \<Rightarrow> ('p, 'e) mutator \<Rightarrow> string" where
  "output_pdbblock E m = dump_pdb E (heap m (pose m))"

text \<open>
  \<^verbatim>\<open>
  def get_term_scores(self, term) -> Tuple[float, float, float]:
      n = self.scorefxn.score_by_scoretype(self.native, term)
      m = self.scorefxn.score_by_scoretype(self.pose, term)
      d = m - n
      return n, m, d

  def get_diff_solubility(self) -> float:
      _, _, diff = self.get_term_scores(pyrosetta.rosetta.core.scoring.ScoreType.fa_sol)
      return diff
  \<close>
  These are called with \<open>self.native\<close> assigned; the address of the native pose is an
  argument here.
\<close>

definition get_term_scores ::
  "('p, 'e::minus) mutator \<Rightarrow> addr \<Rightarrow> string \<Rightarrow> 'e \<times> 'e \<times> 'e" where
  "get_term_scores m nat_a term =
     (let n = score_by_scoretype (scorefxn m) (heap m nat_a) term;
          k = score_by_scoretype (scorefxn m) (heap m (pose m)) term
      in (n, k, k - n))"

definition get_diff_solubility :: "('p, 'e::minus) mutator \<Rightarrow> addr \<Rightarrow> 'e" where
  "get_diff_solubility m nat_a = snd (snd (get_term_scores m nat_a ''fa_sol''))"

text \<open>
  \<^verbatim>\<open>
  def get_diff_res_score(self) -> float:
      i = self.target_pdb2pose(self.target)
      r = pyrosetta.rosetta.core.select.residue_selector.ResidueIndexSelector(i)
      n = self.scorefxn.get_sub_score(self.native, r.apply(self.native))
      m = self.scorefxn.get_sub_score(self.pose, r.apply(self.native))
      return m - n
  \<close>
\<close>

definition ResidueIndexSelector_apply :: "('p, 'e) rosetta \<Rightarrow> nat \<Rightarrow> 'p \<Rightarrow> bool list" where
  "ResidueIndexSelector_apply E i p = map (\<lambda>j. j = i) [1 ..< Suc (total_residue E p)]"

definition get_diff_res_score ::
  "('p, 'e::minus) rosetta \<Rightarrow> ('p, 'e) mutator \<Rightarrow> addr \<Rightarrow> 'e" where
  "get_diff_res_score E m nat_a =
     (let i = target_pdb2pose E m (target m);
          sel = ResidueIndexSelector_apply E i (heap m nat_a);
          n = get_sub_score (scorefxn m) (heap m nat_a) sel;
          k = get_sub_score (scorefxn m) (heap m (pose m)) sel
      in k - n)"

text \<open>
  \<^verbatim>\<open>
  def get_res_score_terms(self, pose) -> dict:
      data = pose.energies().residue_total_energies_array()
      i = self.target_pdb2pose(self.target) - 1
      return {data.dtype.names[j]: data[i][j] for j in range(len(data.dtype))}

  def get_all_scores(self):
      data = {}
      for term in self.scorefxn.get_nonzero_weighted_scoretypes():
          data[term.name] = dict(zip(['native', 'mutant', 'difference'], self.get_term_scores(term)))
          data[term.name]['weight'] = self.scorefxn.get_weight(term)
          data[term.name]['meaning'] = self.term_meanings[term.name]
      return data

  def get_pdb_neighbours(self):
      neighs = pyrosetta.rosetta.core.select.residue_selector.ResidueVector(self.neighbour_vector)
      pose2pdb = self.pose.pdb_info().pose2pdb
      return [pose2pdb(r) for r in neighs]
  \<close>
  The entry \<open>'meaning'\<close>, a constant text per term, is left out of the term table.
\<close>

definition get_res_score_terms ::
  "('p, 'e) rosetta \<Rightarrow> ('p, 'e) mutator \<Rightarrow> 'p \<Rightarrow> (string \<times> 'e) list" where
  "get_res_score_terms E m p = residue_total_energies E p (target_pdb2pose E m (target m))"

record 'e term_row =
  term_native :: 'e
  term_mutant :: 'e
  term_difference :: 'e
  term_weight :: 'e

definition get_all_scores ::
  "('p, 'e::minus) rosetta \<Rightarrow> ('p, 'e) mutator \<Rightarrow> addr \<Rightarrow> (string \<times> 'e term_row) list" where
  "get_all_scores E m nat_a =
     foldl (\<lambda>data term.
              (case get_term_scores m nat_a term of
                 (n, k, d) \<Rightarrow>
                   dict_set term \<lparr>term_native = n, term_mutant = k, term_difference = d,
                                  term_weight = get_weight (scorefxn m) term\<rparr> data))
           [] (nonzero_weighted_scoretypes E (scorefxn m))"

definition ResidueVector :: "bool list \<Rightarrow> nat list" where
  "ResidueVector v = filter (\<lambda>r. v ! (r - 1)) [1 ..< Suc (length v)]"

definition get_pdb_neighbours :: "('p, 'e) rosetta \<Rightarrow> ('p, 'e) mutator \<Rightarrow> string list" where
  "get_pdb_neighbours E m =
     map (pose2pdb E (heap m (pose m))) (ResidueVector (neighbour_vector m))"

text \<open>
  \<^verbatim>\<open>
  def analyse_mutation(self, alt_resn: str) -> Dict:
      self.do_relax()
      self.mark('relaxed')
      self.native = self.pose.clone()
      nblock = self.output_pdbblock()
      self.mutate(alt_resn)
      self.mark('mutate')
      self.do_relax()
      self.mark('mutarelax')
      return {'ddG': self.scores['mutarelax'] - self.scores['relaxed'],
              'scores': self.scores,
              'native': nblock,
              'mutant': self.output_pdbblock(),  # pdbb
              'rmsd': pyrosetta.rosetta.core.scoring.CA_rmsd(self.native, self.pose),
              'dsol': self.get_diff_solubility(),
              'score_fxn': self.scorefxn.get_name(),
              'ddG_residue': self.get_diff_res_score(),
              'native_residue_terms': self.get_res_score_terms(self.native),
              'mutant_residue_terms': self.get_res_score_terms(self.pose),
              'terms': self.get_all_scores(),
              'neighbours': self.get_pdb_neighbours(),
              'cycles': self.cycles,
              'radius': self.radius
              }
  \<close>
  The function returns the dictionary; the model returns it with the state of the
  \<open>Mutator\<close> afterwards.
\<close>

record 'e analysis =
  a_ddG :: 'e
  a_scores :: "(string \<times> 'e) list"
  a_native :: string
  a_mutant :: string
  a_rmsd :: 'e
  a_dsol :: 'e
  a_score_fxn :: string
  a_ddG_residue :: 'e
  a_native_residue_terms :: "(string \<times> 'e) list"
  a_mutant_residue_terms :: "(string \<times> 'e) list"
  a_terms :: "(string \<times> 'e term_row) list"
  a_neighbours :: "string list"
  a_cycles :: int
  a_radius :: int

definition analyse_mutation ::
  "('p, 'e::minus) rosetta \<Rightarrow> string \<Rightarrow> ('p, 'e) mutator
     \<Rightarrow> failure + ('e analysis \<times> ('p, 'e) mutator)" where
  "analyse_mutation E alt_resn m =
     (case do_relax E m of Inl f \<Rightarrow> Inl f | Inr m1 \<Rightarrow>
     (let m2 = mark ''relaxed'' m1;
          (nat_a, m3) = clone (pose m2) m2;
          m4 = m3\<lparr>native := Some nat_a\<rparr>;
          nblock = output_pdbblock E m4
      in (case mutate E alt_resn m4 of Inl f \<Rightarrow> Inl f | Inr m5 \<Rightarrow>
         (case do_relax E (mark ''mutate'' m5) of Inl f \<Rightarrow> Inl f | Inr m6 \<Rightarrow>
         (let m7 = mark ''mutarelax'' m6
          in (case dict_get (scores m7) ''mutarelax'' of Inl f \<Rightarrow> Inl f | Inr s_mutarelax \<Rightarrow>
             (case dict_get (scores m7) ''relaxed'' of Inl f \<Rightarrow> Inl f | Inr s_relaxed \<Rightarrow>
                Inr (\<lparr>a_ddG = s_mutarelax - s_relaxed,
                      a_scores = scores m7,
                      a_native = nblock,
                      a_mutant = output_pdbblock E m7,
                      a_rmsd = CA_rmsd E (heap m7 nat_a) (heap m7 (pose m7)),
                      a_dsol = get_diff_solubility m7 nat_a,
                      a_score_fxn = get_name (scorefxn m7),
                      a_ddG_residue = get_diff_res_score E m7 nat_a,
                      a_native_residue_terms = get_res_score_terms E m7 (heap m7 nat_a),
                      a_mutant_residue_terms = get_res_score_terms E m7 (heap m7 (pose m7)),
                      a_terms = get_all_scores E m7 nat_a,
                      a_neighbours = get_pdb_neighbours E m7,
                      a_cycles = cycles m7,
                      a_radius = radius m7\<rparr>, m7))))))))"

text \<open>
  \<^verbatim>\<open>
  def make_phospho(self, ptms):
      phospho = self.pose.clone()
      MutateResidue = pyrosetta.rosetta.protocols.simple_moves.MutateResidue
      pdb2pose = phospho.pdb_info().pdb2pose
      changes = 0
      for record in ptms:
          if record['ptm'] == 'ub':
              continue  # What is a proxy for ubiquitination??
          elif record['ptm'] == 'p':
              patch = 'phosphorylated'
          elif record['ptm'] == 'ac':
              patch = 'acetylated'
          elif record['ptm'] == 'm1' and record['from_residue'].upper() == 'LYS':
              # monomethylarginine (NMM) will segfault
              patch = 'monomethylated'
          elif record['ptm'] == 'm2' and record['from_residue'].upper() == 'LYS':
              # dimethylarginine (DA2) will segfault
              patch = 'dimethylated'
          elif record['ptm'] == 'm3' and record['from_residue'].upper() == 'LYS':
              # is trimethylarginine a thing?
              patch = 'trimethylated'
          else:
              continue #no Gal
              #raise ValueError(f'What is {record["ptm"]}?')
          new_res = f"{seq3(record['from_residue']).upper()}:{patch}"
          r = pdb2pose(res=int(record['residue_index']), chain='A')
          if r == 0:  # missing density.
              continue
          MutateResidue(target=r, new_res=new_res).apply(phospho)
      return self.output_pdbblock(phospho)
  \<close>
  \<open>ptm_patch\<close> is the chain of tests: \<open>None\<close> where the source says \<open>continue\<close>. The
  clone \<open>phospho\<close> is local and never stored, so it is a value here; the counter
  \<open>changes\<close> is carried through the loop as the source has it.
\<close>

record ptm_record =
  ptm :: string
  from_residue :: string
  residue_index :: int

definition ptm_patch :: "ptm_record \<Rightarrow> string option" where
  "ptm_patch record =
     (if ptm record = ''ub'' then None
      else if ptm record = ''p'' then Some ''phosphorylated''
      else if ptm record = ''ac'' then Some ''acetylated''
      else if ptm record = ''m1'' \<and> upper (from_residue record) = ''LYS''
        then Some ''monomethylated''
      else if ptm record = ''m2'' \<and> upper (from_residue record) = ''LYS''
        then Some ''dimethylated''
      else if ptm record = ''m3'' \<and> upper (from_residue record) = ''LYS''
        then Some ''trimethylated''
      else None)"

fun make_phospho_loop ::
  "('p, 'e) rosetta \<Rightarrow> toolkit \<Rightarrow> ptm_record list \<Rightarrow> 'p \<Rightarrow> nat \<Rightarrow> failure + ('p \<times> nat)" where
  "make_phospho_loop E Y [] phospho changes = Inr (phospho, changes)"
| "make_phospho_loop E Y (record # ptms) phospho changes =
     (case ptm_patch record of
        None \<Rightarrow> make_phospho_loop E Y ptms phospho changes
      | Some patch \<Rightarrow>
          (let new_res = upper (seq3 Y (from_residue record)) @ '':'' @ patch;
               r = pdb2pose E phospho ''A'' (residue_index record)
           in if r = 0 then make_phospho_loop E Y ptms phospho changes
              else (case MutateResidue E r new_res phospho of
                      Inl f \<Rightarrow> Inl f
                    | Inr phospho' \<Rightarrow> make_phospho_loop E Y ptms phospho' changes)))"

definition make_phospho ::
  "('p, 'e) rosetta \<Rightarrow> toolkit \<Rightarrow> ptm_record list \<Rightarrow> ('p, 'e) mutator \<Rightarrow> failure + string" where
  "make_phospho E Y ptms m =
     (case make_phospho_loop E Y ptms (heap m (pose m)) 0 of
        Inl f \<Rightarrow> Inl f
      | Inr (phospho, changes) \<Rightarrow> Inr (dump_pdb E phospho))"

text \<open>
  \<^verbatim>\<open>
  def _repack_gnomad(self, pose_idx, from_resi, to_resi) -> int:
      self.pose = self.native.clone()
      # local repack...
      pyrosetta.toolbox.mutate_residue(self.pose, mutant_position=pose_idx, mutant_aa=from_resi,
                                       pack_radius=4.0, pack_scorefxn=self.scorefxn)
      ref = self.scorefxn(self.pose)
      pyrosetta.toolbox.mutate_residue(self.pose, mutant_position=pose_idx, mutant_aa=to_resi,
                                       pack_radius=4.0, pack_scorefxn=self.scorefxn)
      return self.scorefxn(self.pose) - ref
  \<close>
\<close>

definition repack_gnomad ::
  "('p, 'e::minus) rosetta \<Rightarrow> nat \<Rightarrow> string \<Rightarrow> string \<Rightarrow> ('p, 'e) mutator
     \<Rightarrow> failure + ('e \<times> ('p, 'e) mutator)" where
  "repack_gnomad E pose_idx from_resi to_resi m =
     (case native m of
        None \<Rightarrow> Inl (Raised ''AttributeError'' ''native'')
      | Some nat_a \<Rightarrow>
     (let (a, m1) = clone nat_a m;
          m2 = m1\<lparr>pose := a\<rparr>
      in (case mutate_residue_pack E (scorefxn m2) (heap m2 (pose m2)) pose_idx from_resi of
            Inl f \<Rightarrow> Inl f
          | Inr p1 \<Rightarrow>
         (let m3 = m2\<lparr>heap := (heap m2)(pose m2 := p1)\<rparr>;
              ref = sfx_score (scorefxn m3) (heap m3 (pose m3))
          in (case mutate_residue_pack E (scorefxn m3) (heap m3 (pose m3)) pose_idx to_resi of
                Inl f \<Rightarrow> Inl f
              | Inr p2 \<Rightarrow>
                 (let m4 = m3\<lparr>heap := (heap m3)(pose m3 := p2)\<rparr>
                  in Inr (sfx_score (scorefxn m4) (heap m4 (pose m4)) - ref, m4)))))))"

text \<open>
  \<^verbatim>\<open>rex = re.match(r'(\w)(\d+)([\w])', record.description)\<close>: a word character, as many
  digits as possible and a word character, at the start of the description. When the
  character after the digits is not a word character, the match gives the last digit
  back to the third group. The result is \<open>(group(0), group(1), group(3))\<close>.
\<close>

definition gnomad_rex :: "string \<Rightarrow> (string \<times> string \<times> string) option" where
  "gnomad_rex description =
     (case description of
        [] \<Rightarrow> None
      | c # rest \<Rightarrow>
          (let ds = takeWhile is_digit rest;
               after = dropWhile is_digit rest;
               backtrack = (if 2 \<le> length ds then Some (c # ds, [c], [last ds]) else None)
           in if is_word c \<and> ds \<noteq> []
              then (case after of
                      [] \<Rightarrow> backtrack
                    | t # _ \<Rightarrow> if is_word t then Some (c # ds @ [t], [c], [t]) else backtrack)
              else None))"

text \<open>
  \<^verbatim>\<open>
  def score_gnomads(self, gnomads: List[Variant]):
      # self.repack(self.pose)
      self.native = self.pose.clone()
      self.mark('wt')
      pose2pdb = self.native.pdb_info().pdb2pose
      ddG = {}
      for record in gnomads:
          if record.type == 'nonsense':
              continue
          n = pose2pdb(chain='A', res=record.x)
          if n == 0:
              continue
          rex = re.match(r'(\w)(\d+)([\w])', record.description)
          if rex is None:
              continue
          if rex.group(0) in ddG:
              # print('duplicate mutation.')
              continue
          ddG[rex.group(0)] = self._repack_gnomad(n, rex.group(1), rex.group(3))
      return ddG
  \<close>
  A \<open>Variant\<close> has the attributes \<open>type\<close>, \<open>x\<close> and \<open>description\<close>.
\<close>

record variant =
  v_type :: string
  v_x :: int
  v_description :: string

fun score_gnomads_loop ::
  "('p, 'e::minus) rosetta \<Rightarrow> addr \<Rightarrow> variant list \<Rightarrow> (string \<times> 'e) list \<Rightarrow> ('p, 'e) mutator
     \<Rightarrow> failure + ((string \<times> 'e) list \<times> ('p, 'e) mutator)" where
  "score_gnomads_loop E nat_a [] ddG m = Inr (ddG, m)"
| "score_gnomads_loop E nat_a (record # gnomads) ddG m =
     (if v_type record = ''nonsense'' then score_gnomads_loop E nat_a gnomads ddG m
      else
        (let n = pdb2pose E (heap m nat_a) ''A'' (v_x record)
         in if n = 0 then score_gnomads_loop E nat_a gnomads ddG m
            else
              (case gnomad_rex (v_description record) of
                 None \<Rightarrow> score_gnomads_loop E nat_a gnomads ddG m
               | Some (g0, g1, g3) \<Rightarrow>
                   if dict_has ddG g0 then score_gnomads_loop E nat_a gnomads ddG m
                   else (case repack_gnomad E n g1 g3 m of
                           Inl f \<Rightarrow> Inl f
                         | Inr (v, m') \<Rightarrow>
                             score_gnomads_loop E nat_a gnomads (dict_set g0 v ddG) m'))))"

definition score_gnomads ::
  "('p, 'e::minus) rosetta \<Rightarrow> variant list \<Rightarrow> ('p, 'e) mutator
     \<Rightarrow> failure + ((string \<times> 'e) list \<times> ('p, 'e) mutator)" where
  "score_gnomads E gnomads m =
     (let (a, m1) = clone (pose m) m;
          m2 = mark ''wt'' (m1\<lparr>native := Some a\<rparr>)
      in score_gnomads_loop E a gnomads [] m2)"

text \<open>
  What one candidate's score is when it is computed from a pose value \<open>p\<close> alone: the
  two packed substitutions on \<open>p\<close> and the difference of the two total energies.
\<close>

definition repack_value ::
  "('p, 'e::minus) rosetta \<Rightarrow> ('p, 'e) scorefxn \<Rightarrow> 'p \<Rightarrow> nat \<Rightarrow> string \<Rightarrow> string \<Rightarrow> failure + 'e" where
  "repack_value E sfx p pose_idx from_resi to_resi =
     (case mutate_residue_pack E sfx p pose_idx from_resi of
        Inl f \<Rightarrow> Inl f
      | Inr p1 \<Rightarrow>
          (case mutate_residue_pack E sfx p1 pose_idx to_resi of
             Inl f \<Rightarrow> Inl f
           | Inr p2 \<Rightarrow> Inr (sfx_score sfx p2 - sfx_score sfx p1)))"


text \<open>
  \<open>scored_from E sfx p g k v\<close>: the entry \<open>k \<mapsto> v\<close> is what the variant \<open>g\<close> gives
  on the pose value \<open>p\<close> alone: \<open>g\<close> is not a nonsense variant, its position resolves in
  \<open>p\<close>, its description matches with \<open>group(0) = k\<close>, and \<open>v\<close> is the
  \<open>repack_value\<close> of \<open>p\<close> for the two residues of the description.
\<close>

definition scored_from ::
  "('p, 'e::minus) rosetta \<Rightarrow> ('p, 'e) scorefxn \<Rightarrow> 'p \<Rightarrow> variant \<Rightarrow> string \<Rightarrow> 'e \<Rightarrow> bool" where
  "scored_from E sfx p g k v \<longleftrightarrow>
     v_type g \<noteq> ''nonsense'' \<and> pdb2pose E p ''A'' (v_x g) \<noteq> 0 \<and>
     (case gnomad_rex (v_description g) of
        None \<Rightarrow> False
      | Some (g0, g1, g3) \<Rightarrow>
          g0 = k \<and> repack_value E sfx p (pdb2pose E p ''A'' (v_x g)) g1 g3 = Inr v)"


section \<open>The supervisor and its worker (paratest)\<close>

text \<open>
  \<^verbatim>\<open>
  def subpro(child_conn, **kwargs):  # Pipe <- Union[dict, None]:
      try:
          print('started child')
          Mutator.reinit()
          mut = Mutator(**kwargs)
          data = mut.analyse_mutation('W')
          print('done', len(data))
          child_conn.send(data)
          print('completed child')
      except BaseException as error:
          print('error child')
          child_conn.send({'error': f'{error.__class__.__name__}:{error}'})
  \<close>
  A message is the result dictionary or a dictionary with the key \<open>'error'\<close>. The
  worker sends one message, or none when the process dies in the engine.
\<close>

datatype 'a msg = Data 'a | Error string

definition subpro ::
  "('p, 'e::{zero,ord,minus}) rosetta \<Rightarrow> toolkit \<Rightarrow> kwargs \<Rightarrow> 'e analysis msg option" where
  "subpro E Y kw =
     (case (case Mutator_init E Y kw of
              Inl f \<Rightarrow> Inl f
            | Inr mut \<Rightarrow> analyse_mutation E ''W'' mut) of
        Inr (data, _) \<Rightarrow> Some (Data data)
      | Inl (Raised c t) \<Rightarrow> Some (Error (c @ '':'' @ t))
      | Inl Segfault \<Rightarrow> None)"

text \<open>
  \<^verbatim>\<open>
  parent_conn, child_conn = Pipe()
  p = Process(target=subpro, args=((child_conn),), kwargs=kwargs, name='pyrosetta')
  p.start()

  while 1:
      time.sleep(5)
      print(parent_conn.poll())
      if parent_conn.poll():
          # p.terminate()
          break
      elif not p.is_alive():
          child_conn.send({'error': 'segmentation fault'})
          break
  msg = parent_conn.recv()
  print('DONE!')
  \<close>
  The supervisor sees the worker only through \<open>poll()\<close> and \<open>is_alive()\<close>. An
  observation \<open>env k\<close> is what the \<open>k\<close>-th round of the loop (after the \<open>k + 1\<close>-th
  sleep of five seconds) finds: the messages that the worker has put into the pipe and
  whether the process is alive. The first \<open>poll()\<close> of a round is only printed; the
  second one and \<open>is_alive()\<close> read one state of the worker. The loop may never end, so it is a partial function:
  \<open>None\<close> is "does not return". It returns the content of the pipe when it breaks,
  and \<open>recv\<close> takes the first message.
\<close>

record 'a obs =
  pipe :: "'a msg list"
  alive :: bool

partial_function (option) wait_loop :: "(nat \<Rightarrow> 'a obs) \<Rightarrow> nat \<Rightarrow> 'a msg list option" where
  "wait_loop env k =
     (if pipe (env k) \<noteq> [] then Some (pipe (env k))
      else if \<not> alive (env k) then Some (pipe (env k) @ [Error ''segmentation fault''])
      else wait_loop env (Suc k))"

fun recv :: "'a msg list \<Rightarrow> 'a msg option" where
  "recv [] = None"
| "recv (msg # _) = Some msg"

definition paratest :: "(nat \<Rightarrow> 'a obs) \<Rightarrow> 'a msg option" where
  "paratest env = (case wait_loop env 0 of None \<Rightarrow> None | Some q \<Rightarrow> recv q)"

text \<open>
  Words for the rounds of the loop: a round is \<open>waiting\<close> when it finds the pipe empty
  and the worker alive (the loop goes on); the loop started at round \<open>k\<close> \<open>ends_at\<close>
  round \<open>n\<close> when \<open>n\<close> is the first round from \<open>k\<close> on that is not waiting;
  \<open>outcome\<close> is the content of the pipe when the loop breaks at such a round.
\<close>

definition waiting :: "'a obs \<Rightarrow> bool" where
  "waiting ob \<longleftrightarrow> pipe ob = [] \<and> alive ob"

definition ends_at :: "(nat \<Rightarrow> 'a obs) \<Rightarrow> nat \<Rightarrow> nat \<Rightarrow> bool" where
  "ends_at env k n \<longleftrightarrow> k \<le> n \<and> \<not> waiting (env n) \<and> (\<forall>j \<in> {k ..< n}. waiting (env j))"

definition outcome :: "'a obs \<Rightarrow> 'a msg list" where
  "outcome ob = (if pipe ob \<noteq> [] then pipe ob else [Error ''segmentation fault''])"


section \<open>Structure.includes and ProteinAnalyser.get_best_model\<close>

text \<open>
  \<^verbatim>\<open>structure.py\<close>: a \<open>Structure\<close> stores the span \<open>[x, y]\<close> of the protein that a
  model covers (Python integers, \<open>int(x)\<close> and \<open>int(y)\<close> in the constructor), an offset
  and the crystal resolution (a number, \<open>0\<close> until \<open>lookup_resolution\<close> fills it).
  The resolution is only compared, by \<open>list.sort\<close>, so its type is any linear order.
\<close>

record 'r Structure =
  code :: string
  x :: int
  y :: int
  offset :: int
  resolution :: 'r

text \<open>
  \<^verbatim>\<open>
  def includes(self, position, offset=0):
      if self.x + offset > position:
          return False
      elif self.y + offset < position:
          return False
      else:
          return True
  \<close>
  The parameter \<open>offset\<close> is the argument of the call, not the attribute \<open>self.offset\<close>.
\<close>

definition Structure_includes :: "'r Structure \<Rightarrow> int \<Rightarrow> int \<Rightarrow> bool" where
  "Structure_includes self position off =
     (if x self + off > position then False
      else if y self + off < position then False
      else True)"

text \<open>
  \<^verbatim>\<open>
  def get_best_model(self):
      for l in (self.pdbs, self.swissmodel):
          if l:
              good = []
              for model in l:
                  if model.includes(self.mutation.residue_index):
                      good.append(model)
              if good:
                  good.sort(key=lambda x: x.resolution)
                  return good[0]
      return None
  \<close>
  \<open>list.sort\<close> is stable, as \<^const>\<open>sort_key\<close> is; \<open>good[0]\<close> is read only when
  \<open>good\<close> is not empty. The argument \<open>position\<close> is \<open>self.mutation.residue_index\<close>.
\<close>

definition good_models :: "('r::linorder) Structure list \<Rightarrow> int \<Rightarrow> 'r Structure list" where
  "good_models l position = filter (\<lambda>model. Structure_includes model position 0) l"

fun best_of_groups :: "('r::linorder) Structure list list \<Rightarrow> int \<Rightarrow> 'r Structure option" where
  "best_of_groups [] position = None"
| "best_of_groups (l # ls) position =
     (if l \<noteq> [] then
        (case sort_key resolution (good_models l position) of
           [] \<Rightarrow> best_of_groups ls position
         | best # _ \<Rightarrow> Some best)
      else best_of_groups ls position)"

definition get_best_model ::
  "('r::linorder) Structure list \<Rightarrow> 'r Structure list \<Rightarrow> int \<Rightarrow> 'r Structure option" where
  "get_best_model pdbs swissmodel position = best_of_groups [pdbs, swissmodel] position"


section \<open>A small engine to run the functions on\<close>

text \<open>
  A pose is the list of its residue names, all on chain \<open>A\<close> and numbered from 1; the
  total energy is the number of characters, a \<open>W\<close> counting three times. Loading makes
  one residue per character of the block. The toolkit answers, for residue 2, the alpha
  carbons of residues 1 and 3, and for residue 3 those of residue 2 and of a residue 9
  that the engine does not have.
\<close>

definition toy_sfx :: "int \<Rightarrow> (string list, int) scorefxn" where
  "toy_sfx w =
     \<lparr>sfx_score = (\<lambda>p. int (length (concat p)) + 2 * int (count_list (concat p) CHR ''W'')),
      get_weight = (\<lambda>t. if t = ''cart_bonded'' then w else 1),
      score_by_scoretype = (\<lambda>p t. int (length p)),
      get_sub_score = (\<lambda>p sel. int (length (filter (\<lambda>b. b) sel))),
      get_name = ''toy''\<rparr>"

definition toy_pdb2pose :: "string list \<Rightarrow> string \<Rightarrow> int \<Rightarrow> nat" where
  "toy_pdb2pose p c n = (if c = ''A'' \<and> 1 \<le> n \<and> n \<le> int (length p) then nat n else 0)"

definition toy_mutate :: "string list \<Rightarrow> nat \<Rightarrow> string \<Rightarrow> failure + string list" where
  "toy_mutate p r aa = (if 1 \<le> r \<and> r \<le> length p then Inr (p[r - 1 := aa]) else Inl Segfault)"

definition toy_relax :: fast_relax where
  "toy_relax =
     \<lparr>relax_cycles = 1, movemap_bb = [], movemap_chi = [], cartesian = False,
      minimize_bond_angles = False, minimize_bond_lengths = False,
      movemap_disables_packing_of_fixed_chi_positions = False\<rparr>"

definition toy :: "(string list, int) rosetta" where
  "toy =
     \<lparr>create_score_function =
        (\<lambda>name. if name = [] then Inl (Raised ''RuntimeError'' ''no such weights'')
                 else Inr (toy_sfx (if name = ''cart'' then 1 else if name = ''neg'' then - 1 else 0))),
      pose_from_pdbstring = (\<lambda>params block. Inr (map (\<lambda>c. [c]) block)),
      total_residue = length,
      pdb2pose = toy_pdb2pose,
      pose2pdb = (\<lambda>p r. ''A''),
      dump_pdb = concat,
      FastRelax = (\<lambda>sfx c. toy_relax\<lparr>relax_cycles := c\<rparr>),
      has_disables_packing = True,
      relax_apply = (\<lambda>r sfx p. Inr p),
      mutate_residue = toy_mutate,
      mutate_residue_pack = (\<lambda>sfx. toy_mutate),
      MutateResidue = (\<lambda>r new_res p. toy_mutate p r new_res),
      NeighborhoodResidueSelector =
        (\<lambda>p r rad inc. if r = 0 then Inl Segfault
                        else Inr (map (\<lambda>j. if j = r then inc else \<bar>int j - int r\<bar> \<le> rad)
                                      [1 ..< Suc (length p)])),
      CA_rmsd = (\<lambda>p q. 0),
      residue_total_energies = (\<lambda>p r. []),
      nonzero_weighted_scoretypes = (\<lambda>sfx. [])\<rparr>"

definition toy_kit :: toolkit where
  "toy_kit =
     \<lparr>get_model =
        (\<lambda>block c r rad. if r = 2 then [\<lparr>atom_resi = ''1'', atom_chain = ''A''\<rparr>,
                                         \<lparr>atom_resi = ''3'', atom_chain = ''A''\<rparr>]
                          else if r = 3 then [\<lparr>atom_resi = ''2'', atom_chain = ''A''\<rparr>,
                                              \<lparr>atom_resi = ''9'', atom_chain = ''A''\<rparr>]
                          else []),
      seq3 = (\<lambda>s. s)\<rparr>"

text \<open>Four models of one protein, and the one that \<open>get_best_model\<close> picks for residue 7.\<close>

definition toy_best :: "nat Structure" where
  "toy_best = \<lparr>code = ''3GHI'', x = 7, y = 9, offset = 0, resolution = 1\<rparr>"

definition toy_models :: "nat Structure list" where
  "toy_models =
     [\<lparr>code = ''1ABC'', x = 10, y = 20, offset = 0, resolution = 2\<rparr>,
      \<lparr>code = ''2DEF'', x = 1, y = 7, offset = 0, resolution = 3\<rparr>,
      toy_best,
      \<lparr>code = ''4JKL'', x = 3, y = 8, offset = 0, resolution = 1\<rparr>]"

definition toy_kwargs :: kwargs where
  "toy_kwargs =
     \<lparr>kw_pdbblock = ''HGA'', kw_target_resi = 2, kw_target_chain = ''A'', kw_cycles = 1,
      kw_radius = 1, kw_params_filenames = [], kw_scorefxn_name = ''ref2015'',
      kw_use_pymol_for_neighbours = True\<rparr>"

definition toy_mutator :: "(string list, int) mutator" where
  "toy_mutator =
     \<lparr>scorefxn = toy_sfx 0, scores = [(''raw'', 3)], cycles = 1, radius = 1,
      target = \<lparr>resi = 2, chain = ''A''\<rparr>, pdbblock = ''HGA'', params_filenames = [],
      pose = 0, native = None, pdb2pose_of = 0,
      neighbour_vector = [True, False, True],
      relax = Some (toy_relax\<lparr>movemap_bb := [True, False, True],
                              movemap_chi := [True, False, True],
                              movemap_disables_packing_of_fixed_chi_positions := True\<rparr>),
      heap = (\<lambda>_. [''H'', ''G'', ''A'']), fresh = 1\<rparr>"


text \<open>
  Requested modifications: a ubiquitination, a phosphorylation and a methylation of an
  arginine.
\<close>

definition toy_ub :: ptm_record where
  "toy_ub = \<lparr>ptm = ''ub'', from_residue = ''K'', residue_index = 2\<rparr>"

definition toy_p :: ptm_record where
  "toy_p = \<lparr>ptm = ''p'', from_residue = ''S'', residue_index = 2\<rparr>"

definition toy_m1 :: ptm_record where
  "toy_m1 = \<lparr>ptm = ''m1'', from_residue = ''Arg'', residue_index = 1\<rparr>"

text \<open>
  Variants for the batch mode: two that are scored, a nonsense variant, one at a position
  that the pose does not have and a duplicate.
\<close>

definition toy_variants :: "variant list" where
  "toy_variants =
     [\<lparr>v_type = ''missense'', v_x = 1, v_description = ''H1W (rs1)''\<rparr>,
      \<lparr>v_type = ''nonsense'', v_x = 2, v_description = ''G2*''\<rparr>,
      \<lparr>v_type = ''missense'', v_x = 9, v_description = ''K9R''\<rparr>,
      \<lparr>v_type = ''missense'', v_x = 1, v_description = ''H1W (rs2)''\<rparr>,
      \<lparr>v_type = ''missense'', v_x = 2, v_description = ''G2A''\<rparr>]"

text \<open>
  Three workers as the supervisor sees them: one that stays alive and never sends, one
  that is found dead at the third round without having sent, one whose message is there
  at the fourth round.
\<close>

definition toy_hang :: "nat \<Rightarrow> int analysis obs" where
  "toy_hang k = \<lparr>pipe = [], alive = True\<rparr>"

definition toy_crash :: "nat \<Rightarrow> int analysis obs" where
  "toy_crash k = \<lparr>pipe = [], alive = (k < 2)\<rparr>"

definition toy_slow :: "nat \<Rightarrow> int analysis obs" where
  "toy_slow k =
     \<lparr>pipe = (if k < 3 then [] else [Error ''ValueError:Residue not in structure'']),
      alive = True\<rparr>"


section \<open>Dictionaries and the frame of each step\<close>

lemma map_of_dict_set_same: "map_of (dict_set k v d) k = Some v"
  by (induction d) auto

lemma map_of_dict_set_other: "k' \<noteq> k \<Longrightarrow> map_of (dict_set k v d) k' = map_of d k'"
  by (induction d) auto

lemma dict_set_new: "k \<notin> set (map fst d) \<Longrightarrow> dict_set k v d = d @ [(k, v)]"
  by (induction d) auto

lemma dict_get_Inr: "dict_get d k = Inr v \<longleftrightarrow> map_of d k = Some v"
  by (simp add: dict_get_def split: option.splits)

lemma scores_mark:
  "scores (mark l m) = dict_set l (sfx_score (scorefxn m) (heap m (pose m))) (scores m)"
  by (simp add: mark_def)

lemma mark_frame:
  "heap (mark l m) = heap m" "pose (mark l m) = pose m" "scorefxn (mark l m) = scorefxn m"
  "native (mark l m) = native m" "fresh (mark l m) = fresh m" "relax (mark l m) = relax m"
  "target (mark l m) = target m" "pdb2pose_of (mark l m) = pdb2pose_of m"
  by (simp_all add: mark_def)

lemma do_relax_frame:
  assumes "do_relax E m = Inr m1"
  shows "scores m1 = scores m" "pose m1 = pose m" "scorefxn m1 = scorefxn m"
    "native m1 = native m" "fresh m1 = fresh m" "relax m1 = relax m"
    "\<forall>a. a \<noteq> pose m \<longrightarrow> heap m1 a = heap m a"
  using assms by (auto simp: do_relax_def split: option.splits sum.splits)

lemma mutate_frame:
  assumes "mutate E aa m = Inr m1"
  shows "scores m1 = scores m" "pose m1 = pose m" "scorefxn m1 = scorefxn m"
    "native m1 = native m" "fresh m1 = fresh m" "relax m1 = relax m"
    "\<forall>a. a \<noteq> pose m \<longrightarrow> heap m1 a = heap m a"
  using assms by (auto simp: mutate_def Let_def split: if_splits sum.splits)

lemma native_clone_frame:
  "scores (native_clone m) = scores m" "pose (native_clone m) = pose m"
  "scorefxn (native_clone m) = scorefxn m" "native (native_clone m) = Some (fresh m)"
  "fresh (native_clone m) = Suc (fresh m)" "relax (native_clone m) = relax m"
  "heap (native_clone m) = (heap m)(fresh m := heap m (pose m))"
  by (simp_all add: native_clone_def clone_def)


section \<open>The precise mode: analyse_mutation\<close>

text \<open>A run of \<open>analyse_mutation\<close> that returns went through these states.\<close>

lemma analyse_mutation_stages:
  assumes "analyse_mutation E alt m = Inr (res, m')"
  shows "\<exists>m1 m5 m6 smr sr.
    do_relax E m = Inr m1
    \<and> mutate E alt (native_clone (mark ''relaxed'' m1)) = Inr m5
    \<and> do_relax E (mark ''mutate'' m5) = Inr m6
    \<and> m' = mark ''mutarelax'' m6
    \<and> a_scores res = scores m'
    \<and> dict_get (scores m') ''mutarelax'' = Inr smr
    \<and> dict_get (scores m') ''relaxed'' = Inr sr
    \<and> a_ddG res = smr - sr"
  using assms
  by (auto simp: analyse_mutation_def Let_def native_clone_def split: sum.splits prod.splits)

lemma toy_run:
  "\<exists>res m'. analyse_mutation toy ''W'' toy_mutator = Inr (res, m')
     \<and> a_scores res = [(''raw'', 3), (''relaxed'', 3), (''mutate'', 5), (''mutarelax'', 5)]"
  by (simp add: analyse_mutation_def do_relax_def toy_def toy_mutator_def mark_def clone_def
      mutate_def target_pdb2pose_def toy_pdb2pose_def toy_mutate_def toy_sfx_def dict_get_def
      output_pdbblock_def Let_def)

text \<open>
  C3. When \<open>analyse_mutation\<close> returns, the \<open>ddG\<close> of the result is the value stored
  under \<open>'mutarelax'\<close> minus the value stored under \<open>'relaxed'\<close> in the score dictionary
  of the result (which is the dictionary of the job); the first is the total energy of
  the pose at the end, after the second relax, and the second the total energy of the
  pose as the first relax left it.
\<close>

theorem C3_ddG_is_difference_of_recorded_totals:
  assumes "analyse_mutation E alt m = Inr (res, m')"
  shows "\<exists>m1 s_mutarelax s_relaxed.
    map_of (a_scores res) ''mutarelax'' = Some s_mutarelax
    \<and> map_of (a_scores res) ''relaxed'' = Some s_relaxed
    \<and> a_ddG res = s_mutarelax - s_relaxed
    \<and> a_scores res = scores m'
    \<and> s_mutarelax = sfx_score (scorefxn m') (heap m' (pose m'))
    \<and> do_relax E m = Inr m1
    \<and> s_relaxed = sfx_score (scorefxn m1) (heap m1 (pose m1))"
proof -
  from analyse_mutation_stages [OF assms] obtain m1 m5 m6 smr sr where
    r1: "do_relax E m = Inr m1"
    and mu: "mutate E alt (native_clone (mark ''relaxed'' m1)) = Inr m5"
    and r2: "do_relax E (mark ''mutate'' m5) = Inr m6"
    and m': "m' = mark ''mutarelax'' m6"
    and sc: "a_scores res = scores m'"
    and g1: "dict_get (scores m') ''mutarelax'' = Inr smr"
    and g2: "dict_get (scores m') ''relaxed'' = Inr sr"
    and dd: "a_ddG res = smr - sr"
    by blast
  have s5: "scores m5 = dict_set ''relaxed'' (sfx_score (scorefxn m1) (heap m1 (pose m1))) (scores m1)"
    using mutate_frame(1) [OF mu] by (simp add: native_clone_frame scores_mark)
  have s6: "scores m6 = dict_set ''mutate'' (sfx_score (scorefxn m5) (heap m5 (pose m5))) (scores m5)"
    using do_relax_frame(1) [OF r2] by (simp add: scores_mark)
  have "map_of (scores m') ''mutarelax'' = Some (sfx_score (scorefxn m6) (heap m6 (pose m6)))"
    by (simp add: m' scores_mark map_of_dict_set_same)
  with g1 have smr: "smr = sfx_score (scorefxn m') (heap m' (pose m'))"
    by (simp add: dict_get_Inr m' mark_frame)
  have "map_of (scores m') ''relaxed'' = map_of (scores m5) ''relaxed''"
    by (simp add: m' scores_mark s6 map_of_dict_set_other)
  also have "\<dots> = Some (sfx_score (scorefxn m1) (heap m1 (pose m1)))"
    by (simp add: s5 map_of_dict_set_same)
  finally have sr: "sr = sfx_score (scorefxn m1) (heap m1 (pose m1))"
    using g2 by (simp add: dict_get_Inr)
  from g1 g2 have "map_of (a_scores res) ''mutarelax'' = Some smr"
    "map_of (a_scores res) ''relaxed'' = Some sr"
    by (simp_all add: dict_get_Inr sc)
  with dd sc smr sr r1 show ?thesis by blast
qed

theorem C3_witness:
  "\<exists>res m'. analyse_mutation toy ''W'' toy_mutator = Inr (res, m')
     \<and> a_scores res = [(''raw'', 3), (''relaxed'', 3), (''mutate'', 5), (''mutarelax'', 5)]
     \<and> a_ddG res = 5 - 3"
proof -
  obtain res m' where run: "analyse_mutation toy ''W'' toy_mutator = Inr (res, m')"
    and sc: "a_scores res = [(''raw'', 3), (''relaxed'', 3), (''mutate'', 5), (''mutarelax'', 5)]"
    using toy_run by blast
  from C3_ddG_is_difference_of_recorded_totals [OF run] sc have "a_ddG res = 5 - 3"
    by auto
  with run sc show ?thesis by blast
qed


section \<open>Structure.includes and get_best_model: results\<close>

lemma includes_iff: "Structure_includes s p off \<longleftrightarrow> x s + off \<le> p \<and> p \<le> y s + off"
  by (auto simp: Structure_includes_def)

lemma best_of_groups_good:
  "best_of_groups ls i = Some m \<Longrightarrow> \<exists>l \<in> set ls. m \<in> set (good_models l i)"
proof (induction ls)
  case Nil
  then show ?case by simp
next
  case (Cons l ls)
  show ?case
  proof (cases "l \<noteq> [] \<and> sort_key resolution (good_models l i) \<noteq> []")
    case True
    then obtain b bs where srt: "sort_key resolution (good_models l i) = b # bs"
      by (cases "sort_key resolution (good_models l i)") auto
    with True Cons.prems have "m = b" by simp
    then have "m \<in> set (sort_key resolution (good_models l i))" using srt by simp
    then have "m \<in> set (good_models l i)" by simp
    then show ?thesis by auto
  next
    case False
    then have "best_of_groups (l # ls) i = best_of_groups ls i"
      by (auto split: list.splits)
    with Cons show ?thesis by auto
  qed
qed

text \<open>
  C10. \<open>includes\<close> is true exactly when \<open>x + offset \<le> position \<le> y + offset\<close>, both ends
  inclusive; a model returned by \<open>get_best_model\<close> is one of the given models and its
  span \<open>[x, y]\<close> contains the residue index of the mutation; a model whose span starts or
  ends at the index is included.
\<close>

theorem C10_includes_closed_interval:
  "(Structure_includes s p off \<longleftrightarrow> x s + off \<le> p \<and> p \<le> y s + off)
   \<and> (get_best_model pdbs swissmodel i = Some m \<longrightarrow>
        m \<in> set pdbs \<union> set swissmodel \<and> x m \<le> i \<and> i \<le> y m)
   \<and> (x s \<le> y s \<longrightarrow> Structure_includes s (x s) 0 \<and> Structure_includes s (y s) 0)"
proof (intro conjI impI)
  show "Structure_includes s p off \<longleftrightarrow> x s + off \<le> p \<and> p \<le> y s + off"
    by (rule includes_iff)
next
  assume "get_best_model pdbs swissmodel i = Some m"
  then obtain l where l: "l \<in> set [pdbs, swissmodel]" "m \<in> set (good_models l i)"
    unfolding get_best_model_def by (blast dest: best_of_groups_good)
  then have inc: "Structure_includes m i 0" and mem: "m \<in> set l"
    by (simp_all add: good_models_def)
  from l(1) mem show "m \<in> set pdbs \<union> set swissmodel" by auto
  from inc show "x m \<le> i" by (simp add: includes_iff)
  from inc show "i \<le> y m" by (simp add: includes_iff)
next
  assume "x s \<le> y s"
  then show "Structure_includes s (x s) 0" by (simp add: includes_iff)
next
  assume "x s \<le> y s"
  then show "Structure_includes s (y s) 0" by (simp add: includes_iff)
qed

lemma toy_best_model: "get_best_model toy_models [] 7 = Some toy_best"
  by (simp add: get_best_model_def good_models_def Structure_includes_def toy_models_def
      toy_best_def)

theorem C10_witness:
  "get_best_model toy_models [] 7 = Some toy_best
   \<and> x toy_best = 7 \<and> y toy_best = 9
   \<and> Structure_includes toy_best 7 0 \<and> Structure_includes toy_best 9 0"
proof -
  have span: "x toy_best \<le> y toy_best"
    by (simp add: toy_best_def)
  from C10_includes_closed_interval [of toy_best 7 0 toy_models "[]" 7 toy_best]
    toy_best_model span
  have "x toy_best \<le> 7 \<and> 7 \<le> y toy_best
        \<and> Structure_includes toy_best (x toy_best) 0 \<and> Structure_includes toy_best (y toy_best) 0"
    by blast
  then show ?thesis
    using toy_best_model by (simp add: toy_best_def)
qed

section \<open>The snapshots of one job\<close>

lemma Mutator_init_scores:
  assumes "Mutator_init E Y kw = Inr m0"
  shows "\<exists>e0. scores m0 = [(''raw'', e0)]"
  using assms
  by (auto simp: Mutator_init_def Let_def ready_relax_def mark_def split: sum.splits if_splits)

text \<open>
  C9. In one job (the constructor, then \<open>analyse_mutation\<close>) the score dictionary grows
  by one new label at each \<open>mark\<close>, in the order \<open>raw\<close>, \<open>relaxed\<close>, \<open>mutate\<close>,
  \<open>mutarelax\<close>; every step in between leaves it as it is, so a value stored under a
  label is the value found under that label in every later state and in the result.
\<close>

theorem C9_snapshots_appended_never_replaced:
  assumes init: "Mutator_init E Y kw = Inr m0"
    and run: "analyse_mutation E alt m0 = Inr (res, m')"
  shows "\<exists>m1 m5 m6 e0 e1 e2 e3.
    do_relax E m0 = Inr m1
    \<and> mutate E alt (native_clone (mark ''relaxed'' m1)) = Inr m5
    \<and> do_relax E (mark ''mutate'' m5) = Inr m6
    \<and> m' = mark ''mutarelax'' m6
    \<and> scores m0 = [(''raw'', e0)]
    \<and> scores m1 = [(''raw'', e0)]
    \<and> scores (mark ''relaxed'' m1) = [(''raw'', e0), (''relaxed'', e1)]
    \<and> scores (native_clone (mark ''relaxed'' m1)) = [(''raw'', e0), (''relaxed'', e1)]
    \<and> scores m5 = [(''raw'', e0), (''relaxed'', e1)]
    \<and> scores (mark ''mutate'' m5) = [(''raw'', e0), (''relaxed'', e1), (''mutate'', e2)]
    \<and> scores m6 = [(''raw'', e0), (''relaxed'', e1), (''mutate'', e2)]
    \<and> scores m' = [(''raw'', e0), (''relaxed'', e1), (''mutate'', e2), (''mutarelax'', e3)]
    \<and> a_scores res = scores m'"
proof -
  from Mutator_init_scores [OF init] obtain e0 where s0: "scores m0 = [(''raw'', e0)]" ..
  from analyse_mutation_stages [OF run] obtain m1 m5 m6 where
    r1: "do_relax E m0 = Inr m1"
    and mu: "mutate E alt (native_clone (mark ''relaxed'' m1)) = Inr m5"
    and r2: "do_relax E (mark ''mutate'' m5) = Inr m6"
    and m': "m' = mark ''mutarelax'' m6"
    and sc: "a_scores res = scores m'"
    by blast
  define e1 where "e1 = sfx_score (scorefxn m1) (heap m1 (pose m1))"
  define e2 where "e2 = sfx_score (scorefxn m5) (heap m5 (pose m5))"
  define e3 where "e3 = sfx_score (scorefxn m6) (heap m6 (pose m6))"
  have s1: "scores m1 = [(''raw'', e0)]"
    using do_relax_frame(1) [OF r1] s0 by simp
  have s2: "scores (mark ''relaxed'' m1) = [(''raw'', e0), (''relaxed'', e1)]"
    by (simp add: scores_mark s1 e1_def)
  have s4: "scores (native_clone (mark ''relaxed'' m1)) = [(''raw'', e0), (''relaxed'', e1)]"
    by (simp add: native_clone_frame s2)
  have s5: "scores m5 = [(''raw'', e0), (''relaxed'', e1)]"
    using mutate_frame(1) [OF mu] s4 by simp
  have s5': "scores (mark ''mutate'' m5) = [(''raw'', e0), (''relaxed'', e1), (''mutate'', e2)]"
    by (simp add: scores_mark s5 e2_def)
  have s6: "scores m6 = [(''raw'', e0), (''relaxed'', e1), (''mutate'', e2)]"
    using do_relax_frame(1) [OF r2] s5' by simp
  have s7: "scores m' = [(''raw'', e0), (''relaxed'', e1), (''mutate'', e2), (''mutarelax'', e3)]"
    by (simp add: m' scores_mark s6 e3_def)
  from r1 mu r2 m' s0 s1 s2 s4 s5 s5' s6 s7 sc show ?thesis by blast
qed

lemma toy_init:
  "Mutator_init toy toy_kit toy_kwargs = Inr toy_mutator"
  apply (simp add: Mutator_init_def toy_def toy_kit_def toy_kwargs_def toy_mutator_def Let_def
      mark_def calculate_neighbours_in_pymol_def resi_number_def is_digit_def digits_value_def
      targets2vector_def target_pdb2pose_def toy_pdb2pose_def vector1_set_def
      ready_relax_def toy_sfx_def toy_relax_def)
  done


theorem C9_witness:
  "\<exists>res m'. Mutator_init toy toy_kit toy_kwargs = Inr toy_mutator
     \<and> analyse_mutation toy ''W'' toy_mutator = Inr (res, m')
     \<and> map fst (scores toy_mutator) = [''raw'']
     \<and> map fst (scores m') = [''raw'', ''relaxed'', ''mutate'', ''mutarelax'']
     \<and> a_scores res = scores m'"
proof -
  obtain res m' where run: "analyse_mutation toy ''W'' toy_mutator = Inr (res, m')"
    using toy_run by blast
  from C9_snapshots_appended_never_replaced [OF toy_init run]
  have "map fst (scores toy_mutator) = [''raw'']
     \<and> map fst (scores m') = [''raw'', ''relaxed'', ''mutate'', ''mutarelax'']
     \<and> a_scores res = scores m'"
    by auto
  with toy_init run show ?thesis
    by (intro exI [of _ res] exI [of _ m']) simp
qed

section \<open>Preparing the relax\<close>

text \<open>
  C8, as the claim states it, at a score function whose weight for \<open>cart_bonded\<close> is
  \<open>- 1\<close>: the weight is not zero and the relax is not switched to Cartesian space.
\<close>

theorem C8_counterexample:
  "get_weight (toy_sfx (- 1)) ''cart_bonded'' \<noteq> 0
   \<and> map_option cartesian (relax (ready_relax toy 1 (toy_mutator\<lparr>scorefxn := toy_sfx (- 1)\<rparr>)))
       = Some False
   \<and> map_option minimize_bond_angles (relax (ready_relax toy 1 (toy_mutator\<lparr>scorefxn := toy_sfx (- 1)\<rparr>)))
       = Some False
   \<and> map_option minimize_bond_lengths (relax (ready_relax toy 1 (toy_mutator\<lparr>scorefxn := toy_sfx (- 1)\<rparr>)))
       = Some False"
  by (simp add: ready_relax_def toy_def toy_mutator_def toy_sfx_def toy_relax_def Let_def)

text \<open>
  C8, amended. When the constructor of \<open>FastRelax\<close> leaves the three flags off (the
  engine's default), \<open>ready_relax\<close> sets Cartesian mode, the minimisation of bond angles
  and that of bond lengths exactly when the weight of \<open>cart_bonded\<close> in the score
  function is greater than zero. The right-hand side mentions the score function only:
  the argument \<open>cycles\<close> and the neighbourhood go into the number of cycles and the
  movemap.
\<close>

theorem C8_cartesian_iff_positive_weight:
  assumes "\<not> cartesian (FastRelax E (scorefxn m) cyc)"
    and "\<not> minimize_bond_angles (FastRelax E (scorefxn m) cyc)"
    and "\<not> minimize_bond_lengths (FastRelax E (scorefxn m) cyc)"
  shows "\<exists>r. relax (ready_relax E cyc m) = Some r
    \<and> (cartesian r \<longleftrightarrow> 0 < get_weight (scorefxn m) ''cart_bonded'')
    \<and> (minimize_bond_angles r \<longleftrightarrow> 0 < get_weight (scorefxn m) ''cart_bonded'')
    \<and> (minimize_bond_lengths r \<longleftrightarrow> 0 < get_weight (scorefxn m) ''cart_bonded'')
    \<and> movemap_bb r = neighbour_vector m \<and> movemap_chi r = neighbour_vector m"
  using assms by (simp add: ready_relax_def Let_def)

theorem C8_witness:
  "\<not> cartesian (FastRelax toy (toy_sfx 1) 1)
   \<and> (0::int) < get_weight (toy_sfx 1) ''cart_bonded''
   \<and> map_option cartesian (relax (ready_relax toy 1 (toy_mutator\<lparr>scorefxn := toy_sfx 1\<rparr>))) = Some True
   \<and> map_option minimize_bond_angles (relax (ready_relax toy 1 (toy_mutator\<lparr>scorefxn := toy_sfx 1\<rparr>))) = Some True
   \<and> map_option minimize_bond_lengths (relax (ready_relax toy 1 (toy_mutator\<lparr>scorefxn := toy_sfx 1\<rparr>))) = Some True"
proof -
  let ?m = "toy_mutator\<lparr>scorefxn := toy_sfx 1\<rparr>"
  have sfx: "scorefxn ?m = toy_sfx 1" by simp
  have off: "\<not> cartesian (FastRelax toy (scorefxn ?m) 1)"
    "\<not> minimize_bond_angles (FastRelax toy (scorefxn ?m) 1)"
    "\<not> minimize_bond_lengths (FastRelax toy (scorefxn ?m) 1)"
    by (simp_all add: toy_def toy_relax_def)
  have w: "(0::int) < get_weight (toy_sfx 1) ''cart_bonded''"
    by (simp add: toy_sfx_def)
  from C8_cartesian_iff_positive_weight [OF off] obtain r where
    "relax (ready_relax toy 1 ?m) = Some r"
    "cartesian r \<longleftrightarrow> 0 < get_weight (scorefxn ?m) ''cart_bonded''"
    "minimize_bond_angles r \<longleftrightarrow> 0 < get_weight (scorefxn ?m) ''cart_bonded''"
    "minimize_bond_lengths r \<longleftrightarrow> 0 < get_weight (scorefxn ?m) ''cart_bonded''"
    by blast
  with w off show ?thesis by (simp only: sfx) simp
qed


section \<open>Post-translational modifications\<close>

lemma ptm_patch_skipped:
  "ptm r = ''ub'' \<Longrightarrow> ptm_patch r = None"
  "ptm r \<in> {''m1'', ''m2'', ''m3''} \<Longrightarrow> upper (from_residue r) \<noteq> ''LYS'' \<Longrightarrow> ptm_patch r = None"
  by (auto simp: ptm_patch_def)

lemma make_phospho_loop_skip:
  "ptm_patch r = None \<Longrightarrow>
   make_phospho_loop E Y (xs @ r # ys) p c = make_phospho_loop E Y (xs @ ys) p c"
  by (induction xs arbitrary: p c) (auto simp: Let_def split: option.splits sum.splits)

lemma make_phospho_loop_changes:
  "make_phospho_loop E Y ptms p c = Inr (p', c') \<Longrightarrow> c' = c"
  by (induction ptms arbitrary: p c) (auto simp: Let_def split: option.splits sum.splits if_splits)

lemma make_phospho_loop_all_skipped:
  "\<forall>r \<in> set ptms. ptm_patch r = None \<Longrightarrow> make_phospho_loop E Y ptms p c = Inr (p, c)"
  by (induction ptms) auto

lemma toy_m1_not_lys:
  "ptm toy_m1 \<in> {''m1'', ''m2'', ''m3''} \<and> upper (from_residue toy_m1) \<noteq> ''LYS''"
  by (simp add: toy_m1_def upper_def upper_char_def)

lemma toy_p_applied:
  "make_phospho toy toy_kit [toy_p] toy_mutator = Inr ''HS:phosphorylatedA''"
  by (simp add: make_phospho_def ptm_patch_def toy_def toy_kit_def toy_mutator_def toy_p_def
      toy_pdb2pose_def toy_mutate_def upper_def upper_char_def Let_def)

text \<open>
  C5, as the claim states it, at a request whose only modification is a ubiquitination:
  \<open>make_phospho\<close> returns a result, the block of the unchanged structure, and no
  failure.
\<close>

theorem C5_counterexample:
  "ptm_patch toy_ub = None \<and> make_phospho toy toy_kit [toy_ub] toy_mutator = Inr ''HGA''"
  by (simp add: make_phospho_def ptm_patch_def toy_def toy_mutator_def toy_ub_def)

text \<open>
  C5, amended. The kinds with a patch are \<open>p\<close>, \<open>ac\<close> and, on \<open>LYS\<close> only,
  \<open>m1\<close>, \<open>m2\<close>, \<open>m3\<close>; a ubiquitination, any other kind and a methylation of a
  residue that is not \<open>LYS\<close> have none. A modification without a patch is skipped: the
  loop, and \<open>make_phospho\<close>, give what they give for the list without it, so the skip
  by itself fails nothing and changes neither the structure nor the counter. The counter \<open>changes\<close> comes out of
  the loop as it went in, whatever was applied. When every modification is skipped,
  \<open>make_phospho\<close> returns the block of the unmodified clone of the pose.
\<close>

theorem C5_skipped_modifications:
  "(ptm_patch r = None \<longleftrightarrow>
      ptm r \<notin> {''p'', ''ac''}
      \<and> (ptm r \<in> {''m1'', ''m2'', ''m3''} \<longrightarrow> upper (from_residue r) \<noteq> ''LYS''))
   \<and> (ptm r = ''ub'' \<longrightarrow> ptm_patch r = None)
   \<and> (ptm_patch r = None \<longrightarrow>
        make_phospho_loop E Y (xs @ r # ys) p c = make_phospho_loop E Y (xs @ ys) p c
        \<and> make_phospho E Y (xs @ r # ys) m = make_phospho E Y (xs @ ys) m)
   \<and> (make_phospho_loop E Y ptms p c = Inr (p', c') \<longrightarrow> c' = c)
   \<and> ((\<forall>r \<in> set ptms. ptm_patch r = None) \<longrightarrow>
        make_phospho E Y ptms m = Inr (dump_pdb E (heap m (pose m))))"
proof (intro conjI impI)
  show "ptm_patch r = None \<longleftrightarrow>
      ptm r \<notin> {''p'', ''ac''}
      \<and> (ptm r \<in> {''m1'', ''m2'', ''m3''} \<longrightarrow> upper (from_residue r) \<noteq> ''LYS'')"
    by (auto simp: ptm_patch_def)
next
  assume "ptm r = ''ub''"
  then show "ptm_patch r = None" by (rule ptm_patch_skipped(1))
next
  assume skip: "ptm_patch r = None"
  then show "make_phospho_loop E Y (xs @ r # ys) p c = make_phospho_loop E Y (xs @ ys) p c"
    by (rule make_phospho_loop_skip)
  from skip show "make_phospho E Y (xs @ r # ys) m = make_phospho E Y (xs @ ys) m"
    by (simp add: make_phospho_def make_phospho_loop_skip)
next
  assume "make_phospho_loop E Y ptms p c = Inr (p', c')"
  then show "c' = c" by (rule make_phospho_loop_changes)
next
  assume "\<forall>r \<in> set ptms. ptm_patch r = None"
  then show "make_phospho E Y ptms m = Inr (dump_pdb E (heap m (pose m)))"
    by (simp add: make_phospho_def make_phospho_loop_all_skipped)
qed

theorem C5_witness:
  "ptm_patch toy_m1 = None \<and> ptm_patch toy_ub = None
   \<and> make_phospho toy toy_kit [toy_p, toy_m1] toy_mutator = Inr ''HS:phosphorylatedA''
   \<and> make_phospho toy toy_kit [toy_ub, toy_m1] toy_mutator = Inr ''HGA''"
proof -
  note c = C5_skipped_modifications [of toy_m1 toy toy_kit "[toy_p]" "[]" "[''H'', ''G'', ''A'']" 0
      toy_mutator "[toy_ub, toy_m1]" "[''H'', ''G'', ''A'']" 0]
  note c1 = conjunct1 [OF c]
  note c3 = conjunct1 [OF conjunct2 [OF conjunct2 [OF c]]]
  note c5 = conjunct2 [OF conjunct2 [OF conjunct2 [OF conjunct2 [OF c]]]]
  note u2 = conjunct1 [OF conjunct2 [OF C5_skipped_modifications
        [of toy_ub toy toy_kit "[]" "[]" "[]" 0 toy_mutator "[]" "[]" 0]]]
  have "ptm toy_m1 \<notin> {''p'', ''ac''}
      \<and> (ptm toy_m1 \<in> {''m1'', ''m2'', ''m3''} \<longrightarrow> upper (from_residue toy_m1) \<noteq> ''LYS'')"
    using toy_m1_not_lys by (simp add: toy_m1_def)
  then have skip: "ptm_patch toy_m1 = None"
    by (rule iffD2 [OF c1])
  have "ptm toy_ub = ''ub''" by (simp add: toy_ub_def)
  then have skip_ub: "ptm_patch toy_ub = None"
    by (rule mp [OF u2])
  from mp [OF c3 skip] have "make_phospho toy toy_kit ([toy_p] @ toy_m1 # []) toy_mutator
      = make_phospho toy toy_kit ([toy_p] @ []) toy_mutator"
    by (rule conjunct2)
  then have one: "make_phospho toy toy_kit [toy_p, toy_m1] toy_mutator = Inr ''HS:phosphorylatedA''"
    using toy_p_applied by simp
  have "\<forall>r \<in> set [toy_ub, toy_m1]. ptm_patch r = None"
    using skip skip_ub by simp
  from mp [OF c5 this] have "make_phospho toy toy_kit [toy_ub, toy_m1] toy_mutator
      = Inr (dump_pdb toy (heap toy_mutator (pose toy_mutator)))" .
  then have none: "make_phospho toy toy_kit [toy_ub, toy_m1] toy_mutator = Inr ''HGA''"
    by (simp add: toy_def toy_mutator_def)
  from skip skip_ub one none show ?thesis by simp
qed


section \<open>The neighbourhood mask\<close>

lemma vector1_set_fail: "vector1_set v r b = Inl f \<Longrightarrow> f = Raised ''IndexError'' []"
  by (simp add: vector1_set_def split: if_splits)

lemma vector1_set_zero: "vector1_set v 0 b = Inl (Raised ''IndexError'' [])"
  by (simp add: vector1_set_def)

lemma targets2vector_loop_unresolved:
  "t \<in> set ts \<Longrightarrow> target_pdb2pose E m t = 0 \<Longrightarrow>
   targets2vector_loop E m ts v = Inl (Raised ''IndexError'' [])"
proof (induction ts arbitrary: v)
  case Nil
  then show ?case by simp
next
  case (Cons u us)
  show ?case
  proof (cases "vector1_set v (target_pdb2pose E m u) True")
    case (Inl f)
    then show ?thesis by (simp add: vector1_set_fail [OF Inl])
  next
    case (Inr v')
    with Cons.prems have "u \<noteq> t" by (auto simp: vector1_set_zero)
    with Cons.prems have "t \<in> set us" by simp
    from Cons.IH [OF this Cons.prems(2)] Inr show ?thesis by simp
  qed
qed

lemma targets2vector_unresolved_raises:
  "t \<in> set ts \<Longrightarrow> target_pdb2pose E m t = 0 \<Longrightarrow>
   targets2vector E m ts = Inl (Raised ''IndexError'' [])"
  by (simp add: targets2vector_def targets2vector_loop_unresolved)

lemma targets2vector_loop_mask:
  "targets2vector_loop E m ts v = Inr v' \<Longrightarrow>
   length v' = length v \<and>
   (\<forall>r. vector1_get v' r \<longleftrightarrow> vector1_get v r \<or> r \<in> target_pdb2pose E m ` set ts)"
proof (induction ts arbitrary: v)
  case Nil
  then show ?case by simp
next
  case (Cons u us)
  from Cons.prems obtain w where
    w: "vector1_set v (target_pdb2pose E m u) True = Inr w"
    and rest: "targets2vector_loop E m us w = Inr v'"
    by (auto split: sum.splits)
  let ?k = "target_pdb2pose E m u"
  from w have k: "1 \<le> ?k" "?k \<le> length v" and wv: "w = v[?k - 1 := True]"
    by (auto simp: vector1_set_def split: if_splits)
  have get_w: "vector1_get w r \<longleftrightarrow> vector1_get v r \<or> r = ?k" for r
    using k by (auto simp: vector1_get_def wv nth_list_update)
  from Cons.IH [OF rest] have "length v' = length w"
    and "\<forall>r. vector1_get v' r \<longleftrightarrow> vector1_get w r \<or> r \<in> target_pdb2pose E m ` set us"
    by simp_all
  then show ?case using get_w by (auto simp: wv)
qed

lemma targets2vector_mask:
  assumes "targets2vector E m ts = Inr v"
  shows "vector1_get v r \<longleftrightarrow> r \<in> target_pdb2pose E m ` set ts"
proof -
  have "\<not> vector1_get (replicate n False) r" for n
    by (auto simp: vector1_get_def)
  with targets2vector_loop_mask [OF assms [unfolded targets2vector_def]] show ?thesis
    by simp
qed

text \<open>
  The topological strategy asks the engine's selector to include the focus residue: the
  last argument is \<open>True\<close>. With an engine whose selector honours the flag, the mask has
  the target.
\<close>

lemma pyrosetta_mask_has_target:
  assumes "\<And>p r rad v. NeighborhoodResidueSelector E p r rad True = Inr v \<Longrightarrow> vector1_get v r"
    and "calculate_neighbours_in_pyrosetta E m rad = Inr v"
  shows "vector1_get v (target_pdb2pose E m (target m))"
  using assms by (simp add: calculate_neighbours_in_pyrosetta_def)

text \<open>
  The spatial strategy flags the residues that the selection of the toolkit returned,
  and only them: the target is in the mask exactly when its own alpha carbon is among the
  returned atoms.
\<close>

lemma pymol_mask_has_target_iff:
  assumes "calculate_neighbours_in_pymol Y m rad = Inr ts"
    and "targets2vector E m ts = Inr v"
  shows "vector1_get v (target_pdb2pose E m (target m))
    \<longleftrightarrow> target_pdb2pose E m (target m) \<in> target_pdb2pose E m ` set ts"
  using targets2vector_mask [OF assms(2)] by simp

text \<open>
  C6. A neighbour that does not resolve is not dropped: residue 9 resolves to \<open>0\<close>,
  the assignment \<open>neighbours[0] = True\<close> raises, and so do \<open>targets2vector\<close> and the
  constructor of a \<open>Mutator\<close> whose selection returned that residue.
\<close>

theorem C6_unresolved_neighbour_raises:
  "target_pdb2pose toy toy_mutator \<lparr>resi = 9, chain = ''A''\<rparr> = 0
   \<and> targets2vector toy toy_mutator [\<lparr>resi = 2, chain = ''A''\<rparr>, \<lparr>resi = 9, chain = ''A''\<rparr>]
       = Inl (Raised ''IndexError'' [])
   \<and> Mutator_init toy toy_kit (toy_kwargs\<lparr>kw_target_resi := 3\<rparr>) = Inl (Raised ''IndexError'' [])"
  by (simp add: Mutator_init_def toy_def toy_kit_def toy_kwargs_def toy_mutator_def Let_def
      mark_def calculate_neighbours_in_pymol_def resi_number_def is_digit_def digits_value_def
      targets2vector_def target_pdb2pose_def toy_pdb2pose_def vector1_set_def
      ready_relax_def toy_sfx_def toy_relax_def)

text \<open>
  C4. With the spatial strategy and a selection that returns the alpha carbons of the
  residues 1 and 3 around the target 2, the target resolves to index 2 and the mask is
  \<open>[True, False, True]\<close>: the target's own index is not flagged. With the topological
  strategy, on the same structure, it is.
\<close>

theorem C4_pymol_mask_without_target:
  "map_sum id (\<lambda>m. (target_pdb2pose toy m (target m), neighbour_vector m))
     (Mutator_init toy toy_kit toy_kwargs) = Inr (2, [True, False, True])
   \<and> calculate_neighbours_in_pymol toy_kit toy_mutator 1
       = Inr [\<lparr>resi = 1, chain = ''A''\<rparr>, \<lparr>resi = 3, chain = ''A''\<rparr>]
   \<and> map_sum id (\<lambda>m. (target_pdb2pose toy m (target m), neighbour_vector m))
       (Mutator_init toy toy_kit (toy_kwargs\<lparr>kw_use_pymol_for_neighbours := False\<rparr>))
       = Inr (2, [True, True, True])"
  by (simp add: Mutator_init_def toy_def toy_kit_def toy_kwargs_def toy_mutator_def Let_def
      mark_def calculate_neighbours_in_pymol_def resi_number_def is_digit_def digits_value_def
      targets2vector_def target_pdb2pose_def toy_pdb2pose_def vector1_set_def
      calculate_neighbours_in_pyrosetta_def
      ready_relax_def toy_sfx_def toy_relax_def)

section \<open>The batch mode: score_gnomads\<close>

lemma repack_gnomad_spec:
  assumes run: "repack_gnomad E n a b m = Inr (v, m')"
    and nat: "native m = Some na" and alloc: "na < fresh m"
  shows "pose m' = fresh m" "fresh m' = Suc (fresh m)" "native m' = Some na"
    "scorefxn m' = scorefxn m" "scores m' = scores m"
    "\<forall>ad. ad \<noteq> fresh m \<longrightarrow> heap m' ad = heap m ad"
    "repack_value E (scorefxn m) (heap m na) n a b = Inr v"
  using assms
  by (auto simp: repack_gnomad_def repack_value_def clone_def Let_def split: sum.splits)

lemma score_gnomads_loop_spec:
  assumes "score_gnomads_loop E na gs d m = Inr (d', m')"
    and "native m = Some na" and "na < fresh m" and "distinct (map fst d)"
  shows "native m' = Some na \<and> fresh m' = fresh m + (length d' - length d)
    \<and> length d \<le> length d'
    \<and> (\<forall>ad < fresh m. heap m' ad = heap m ad)
    \<and> scorefxn m' = scorefxn m \<and> scores m' = scores m
    \<and> distinct (map fst d') \<and> prefix d d'
    \<and> (\<forall>(k, v) \<in> set d'. (k, v) \<in> set d
          \<or> (\<exists>g \<in> set gs. scored_from E (scorefxn m) (heap m na) g k v))"
  using assms
proof (induction gs arbitrary: d m)
  case Nil
  then show ?case by auto
next
  case (Cons g gs)
  let ?n = "pdb2pose E (heap m na) ''A'' (v_x g)"
  show ?case
  proof (cases "v_type g \<noteq> ''nonsense'' \<and> ?n \<noteq> 0 \<and>
      (\<exists>g0 g1 g3. gnomad_rex (v_description g) = Some (g0, g1, g3) \<and> \<not> dict_has d g0)")
    case False
    then have "score_gnomads_loop E na (g # gs) d m = score_gnomads_loop E na gs d m"
      by (auto simp: Let_def split: option.splits)
    with Cons.prems have "score_gnomads_loop E na gs d m = Inr (d', m')" by simp
    from Cons.IH [OF this Cons.prems(2-4)] show ?thesis by fastforce
  next
    case True
    then obtain g0 g1 g3 where ty: "v_type g \<noteq> ''nonsense''" and n0: "?n \<noteq> 0"
      and rex: "gnomad_rex (v_description g) = Some (g0, g1, g3)"
      and new: "\<not> dict_has d g0"
      by blast
    from Cons.prems(1) ty n0 rex new obtain v m1 where
      rp: "repack_gnomad E ?n g1 g3 m = Inr (v, m1)"
      and rest: "score_gnomads_loop E na gs (dict_set g0 v d) m1 = Inr (d', m')"
      by (auto simp: Let_def split: sum.splits)
    note sp = repack_gnomad_spec [OF rp Cons.prems(2,3)]
    from new have ds: "dict_set g0 v d = d @ [(g0, v)]"
      by (simp add: dict_has_def dict_set_new)
    have dist: "distinct (map fst (dict_set g0 v d))"
      using Cons.prems(4) new by (simp add: ds dict_has_def)
    have alloc1: "na < fresh m1" using sp(2) Cons.prems(3) by simp
    from Cons.IH [OF rest sp(3) alloc1 dist]
    have ih: "native m' = Some na"
      "fresh m' = fresh m1 + (length d' - length (dict_set g0 v d))"
      "length (dict_set g0 v d) \<le> length d'"
      "\<forall>ad < fresh m1. heap m' ad = heap m1 ad"
      "scorefxn m' = scorefxn m1" "scores m' = scores m1"
      "distinct (map fst d')" "prefix (dict_set g0 v d) d'"
      "\<forall>(k, w) \<in> set d'. (k, w) \<in> set (dict_set g0 v d)
          \<or> (\<exists>g \<in> set gs. scored_from E (scorefxn m1) (heap m1 na) g k w)"
      by simp_all
    have hna: "heap m1 na = heap m na" using sp(6) Cons.prems(3) by simp
    have this_one: "scored_from E (scorefxn m) (heap m na) g g0 v"
      using ty n0 rex sp(7) by (simp add: scored_from_def)
    have "fresh m' = fresh m + (length d' - length d)"
      using ih(2,3) sp(2) by (simp add: ds)
    moreover have "length d \<le> length d'" using ih(3) by (simp add: ds)
    moreover have "\<forall>ad < fresh m. heap m' ad = heap m ad"
      using ih(4) sp(2,6) by simp
    moreover have "prefix d d'" using ih(8) by (auto simp: ds dest: append_prefixD)
    moreover have "\<forall>(k, w) \<in> set d'. (k, w) \<in> set d
          \<or> (\<exists>g \<in> set (g # gs). scored_from E (scorefxn m) (heap m na) g k w)"
      using ih(9) this_one by (auto simp: ds sp(4) hna)
    ultimately show ?thesis using ih(1,5,6,7) sp(4,5) by simp
  qed
qed

text \<open>
  C7. When \<open>score_gnomads\<close> returns: the native reference is the clone made at the
  start and still holds the content that the pose had then; every pose object that
  existed before is unchanged; one new object was made for the native and one for each
  scored substitution; the keys of the result are distinct, and each entry is what its
  variant gives on the native content alone, whatever the other variants are. For one
  substitution: \<open>_repack_gnomad\<close> works on a new object, which is not the native one,
  changes no other object, and returns the \<open>repack_value\<close> of the native content.
\<close>

theorem C7_batch_candidates_on_fresh_clones:
  "(score_gnomads E gnomads m = Inr (ddGs, m') \<longrightarrow>
      native m' = Some (fresh m)
      \<and> heap m' (fresh m) = heap m (pose m)
      \<and> (\<forall>ad < fresh m. heap m' ad = heap m ad)
      \<and> fresh m' = Suc (fresh m) + length ddGs
      \<and> distinct (map fst ddGs)
      \<and> (\<forall>(k, v) \<in> set ddGs. \<exists>g \<in> set gnomads.
            scored_from E (scorefxn m) (heap m (pose m)) g k v))
   \<and> (repack_gnomad E n a b s = Inr (w, s') \<and> native s = Some na \<and> na < fresh s \<longrightarrow>
      pose s' = fresh s \<and> pose s' \<noteq> na
      \<and> (\<forall>ad. ad \<noteq> pose s' \<longrightarrow> heap s' ad = heap s ad)
      \<and> repack_value E (scorefxn s) (heap s na) n a b = Inr w)"
proof (intro conjI impI)
  assume run: "score_gnomads E gnomads m = Inr (ddGs, m')"
  let ?m2 = "mark ''wt'' (native_clone m)"
  from run have loop: "score_gnomads_loop E (fresh m) gnomads [] ?m2 = Inr (ddGs, m')"
    by (simp add: score_gnomads_def native_clone_def clone_def Let_def)
  have pre: "native ?m2 = Some (fresh m)" "fresh m < fresh ?m2" "distinct (map fst [])"
    by (simp_all add: mark_frame native_clone_frame)
  note sp = score_gnomads_loop_spec [OF loop pre]
  have h2: "heap ?m2 = (heap m)(fresh m := heap m (pose m))"
    by (simp add: mark_frame native_clone_frame)
  from sp show "native m' = Some (fresh m)" by simp
  from sp show "heap m' (fresh m) = heap m (pose m)"
    by (simp add: mark_frame native_clone_frame)
  from sp show "\<forall>ad < fresh m. heap m' ad = heap m ad"
    by (simp add: mark_frame native_clone_frame)
  from sp show "fresh m' = Suc (fresh m) + length ddGs"
    by (simp add: mark_frame native_clone_frame)
  from sp show "distinct (map fst ddGs)" by simp
  from sp show "\<forall>(k, v) \<in> set ddGs. \<exists>g \<in> set gnomads.
      scored_from E (scorefxn m) (heap m (pose m)) g k v"
    by (simp add: mark_frame native_clone_frame)
next
  assume a: "repack_gnomad E n a b s = Inr (w, s') \<and> native s = Some na \<and> na < fresh s"
  then have run: "repack_gnomad E n a b s = Inr (w, s')" and nat: "native s = Some na"
    and alloc: "na < fresh s" by simp_all
  note sp = repack_gnomad_spec [OF run nat alloc]
  from sp(1) show "pose s' = fresh s" .
  from sp(1) alloc show "pose s' \<noteq> na" by simp
  from sp(1,6) show "\<forall>ad. ad \<noteq> pose s' \<longrightarrow> heap s' ad = heap s ad" by simp
  from sp(7) show "repack_value E (scorefxn s) (heap s na) n a b = Inr w" .
qed

lemma toy_batch:
  "map_sum id fst (score_gnomads toy toy_variants toy_mutator) = Inr [(''H1W'', 2), (''G2A'', 0)]"
  by code_simp

lemma toy_batch_run:
  "\<exists>m'. score_gnomads toy toy_variants toy_mutator = Inr ([(''H1W'', 2), (''G2A'', 0)], m')"
  using toy_batch by (cases "score_gnomads toy toy_variants toy_mutator") auto

lemma toy_repack:
  "map_sum id fst (repack_gnomad toy 1 ''H'' ''W'' (native_clone toy_mutator)) = Inr 2"
  by code_simp

theorem C7_witness:
  "\<exists>m' s'. score_gnomads toy toy_variants toy_mutator = Inr ([(''H1W'', 2), (''G2A'', 0)], m')
     \<and> native m' = Some 1 \<and> fresh m' = 4
     \<and> heap m' 1 = [''H'', ''G'', ''A''] \<and> heap m' 0 = [''H'', ''G'', ''A'']
     \<and> repack_gnomad toy 1 ''H'' ''W'' (native_clone toy_mutator) = Inr (2, s')
     \<and> pose s' = 2 \<and> heap s' 1 = [''H'', ''G'', ''A'']"
proof -
  from toy_batch_run obtain m' where
    run: "score_gnomads toy toy_variants toy_mutator = Inr ([(''H1W'', 2), (''G2A'', 0)], m')" ..
  from toy_repack obtain s' where
    one: "repack_gnomad toy 1 ''H'' ''W'' (native_clone toy_mutator) = Inr (2, s')"
    by (cases "repack_gnomad toy 1 ''H'' ''W'' (native_clone toy_mutator)") auto
  have st: "fresh toy_mutator = 1" "pose toy_mutator = 0" "heap toy_mutator 0 = [''H'', ''G'', ''A'']"
    by (simp_all add: toy_mutator_def)
  have nc: "native (native_clone toy_mutator) = Some 1" "fresh (native_clone toy_mutator) = 2"
    "heap (native_clone toy_mutator) 1 = [''H'', ''G'', ''A'']"
    by (simp_all add: native_clone_frame st)
  note c = C7_batch_candidates_on_fresh_clones
    [of toy toy_variants toy_mutator "[(''H1W'', 2), (''G2A'', 0)]" m' 1 "''H''" "''W''"
      "native_clone toy_mutator" 2 s' 1]
  from mp [OF conjunct1 [OF c] run]
  have batch: "native m' = Some 1 \<and> fresh m' = 4
     \<and> heap m' 1 = [''H'', ''G'', ''A''] \<and> heap m' 0 = [''H'', ''G'', ''A'']"
    by (simp add: st)
  have "repack_gnomad toy 1 ''H'' ''W'' (native_clone toy_mutator) = Inr (2, s')
      \<and> native (native_clone toy_mutator) = Some 1 \<and> 1 < fresh (native_clone toy_mutator)"
    using one nc by simp
  from mp [OF conjunct2 [OF c] this]
  have single: "pose s' = 2 \<and> heap s' 1 = [''H'', ''G'', ''A'']"
    by (simp add: native_clone_frame st)
  from run one batch single show ?thesis
    by (intro exI [of _ m'] exI [of _ s']) simp
qed


section \<open>The wait loop of the supervisor\<close>

lemma wait_loop_skip:
  "pipe (env k) = [] \<Longrightarrow> alive (env k) \<Longrightarrow> wait_loop env k = wait_loop env (Suc k)"
  by (subst wait_loop.simps) simp

lemma wait_loop_message:
  "pipe (env k) \<noteq> [] \<Longrightarrow> wait_loop env k = Some (pipe (env k))"
  by (subst wait_loop.simps) simp

lemma wait_loop_dead:
  "pipe (env k) = [] \<Longrightarrow> \<not> alive (env k) \<Longrightarrow>
   wait_loop env k = Some [Error ''segmentation fault'']"
  by (subst wait_loop.simps) simp

lemma wait_loop_ends:
  "ends_at env k n \<Longrightarrow> wait_loop env k = Some (outcome (env n))"
proof (induction "n - k" arbitrary: k)
  case 0
  then have "k = n" and nw: "\<not> waiting (env n)" by (simp_all add: ends_at_def)
  then show ?case
    by (cases "pipe (env n) = []")
      (simp_all add: wait_loop_message wait_loop_dead outcome_def waiting_def)
next
  case (Suc d)
  then have lt: "k < n" by simp
  with Suc.prems have w: "waiting (env k)" by (simp add: ends_at_def)
  from Suc.prems lt have "ends_at env (Suc k) n" by (simp add: ends_at_def)
  moreover from Suc.hyps(2) have "d = n - Suc k" by simp
  ultimately have "wait_loop env (Suc k) = Some (outcome (env n))" by (rule Suc.hyps(1) [rotated])
  with w show ?case by (simp add: wait_loop_skip waiting_def)
qed

lemma ends_at_step: "waiting (env k) \<Longrightarrow> ends_at env (Suc k) n \<Longrightarrow> ends_at env k n"
proof -
  assume w: "waiting (env k)" and e: "ends_at env (Suc k) n"
  have "waiting (env j)" if "j \<in> {k ..< n}" for j
  proof (cases "j = k")
    case True
    with w show ?thesis by simp
  next
    case False
    with that have "j \<in> {Suc k ..< n}" by simp
    with e show ?thesis by (simp add: ends_at_def)
  qed
  with e show ?thesis by (simp add: ends_at_def)
qed

lemma wait_loop_returns:
  assumes "wait_loop env k = Some q"
  shows "\<exists>n. ends_at env k n \<and> q = outcome (env n)"
proof (rule wait_loop.raw_induct
    [where P = "\<lambda>e i r. \<exists>n. ends_at e i n \<and> r = outcome (e n)", OF _ assms])
  fix wl e i r
  assume IH: "\<And>e' i' r'. wl e' i' = Some r' \<Longrightarrow> \<exists>n. ends_at e' i' n \<and> r' = outcome (e' n)"
    and step: "(if pipe (e i) \<noteq> [] then Some (pipe (e i))
                else if \<not> alive (e i) then Some (pipe (e i) @ [Error ''segmentation fault''])
                else wl e (Suc i)) = Some r"
  show "\<exists>n. ends_at e i n \<and> r = outcome (e n)"
  proof (cases "waiting (e i)")
    case False
    with step have "r = outcome (e i)"
      by (auto simp: waiting_def outcome_def split: if_splits)
    moreover from False have "ends_at e i i" by (simp add: ends_at_def)
    ultimately show ?thesis by blast
  next
    case True
    with step have "wl e (Suc i) = Some r" by (simp add: waiting_def)
    from IH [OF this] obtain n where n: "ends_at e (Suc i) n" "r = outcome (e n)" by blast
    from ends_at_step [OF True n(1)] n(2) show ?thesis by blast
  qed
qed

text \<open>
  C1, as the claim states it, at a worker that stays alive and never sends: the wait
  loop does not return, whatever time has passed.
\<close>

theorem C1_counterexample:
  "paratest toy_hang = None"
proof -
  have "wait_loop toy_hang 0 = None"
  proof (cases "wait_loop toy_hang 0")
    case None
    then show ?thesis .
  next
    case (Some q)
    from wait_loop_returns [OF Some] obtain n where "ends_at toy_hang 0 n" by blast
    then have "\<not> waiting (toy_hang n)" by (simp add: ends_at_def)
    then show ?thesis by (simp add: waiting_def toy_hang_def)
  qed
  then show ?thesis by (simp add: paratest_def)
qed

text \<open>
  C1, amended. The wait loop has no maximum duration. It returns exactly when some round
  finds a message in the pipe or the worker not alive, at the first such round and with
  the content of the pipe then; as long as the rounds find no message and the worker
  alive it goes on, and when they all do it never returns. It terminates no worker, and
  the only failure that the supervisor makes up is \<open>'segmentation fault'\<close>: any other
  error message was sent by the worker.
\<close>

theorem C1_wait_loop_has_no_timeout:
  "(wait_loop env 0 = Some q \<longleftrightarrow> (\<exists>n. ends_at env 0 n \<and> q = outcome (env n)))
   \<and> ((\<forall>k < n. waiting (env k)) \<longrightarrow> wait_loop env 0 = wait_loop env n)
   \<and> ((\<forall>k. waiting (env k)) \<longrightarrow> paratest env = None)
   \<and> (paratest env = Some (Error t) \<longrightarrow>
        t = ''segmentation fault'' \<or> (\<exists>k. Error t \<in> set (pipe (env k))))"
proof (intro conjI impI)
  show "wait_loop env 0 = Some q \<longleftrightarrow> (\<exists>n. ends_at env 0 n \<and> q = outcome (env n))"
    using wait_loop_returns [of env 0 q] wait_loop_ends [of env 0] by auto
next
  assume "\<forall>k < n. waiting (env k)"
  then show "wait_loop env 0 = wait_loop env n"
  proof (induction n)
    case 0
    show ?case by simp
  next
    case (Suc n)
    then have "wait_loop env 0 = wait_loop env n" and "waiting (env n)" by simp_all
    then show ?case by (simp add: wait_loop_skip waiting_def)
  qed
next
  assume all: "\<forall>k. waiting (env k)"
  have "wait_loop env 0 = None"
  proof (cases "wait_loop env 0")
    case None
    then show ?thesis .
  next
    case (Some r)
    from wait_loop_returns [OF Some] obtain j where "ends_at env 0 j" by blast
    with all show ?thesis by (simp add: ends_at_def)
  qed
  then show "paratest env = None" by (simp add: paratest_def)
next
  assume p: "paratest env = Some (Error t)"
  then obtain r where r: "wait_loop env 0 = Some r" and rc: "recv r = Some (Error t)"
    by (auto simp: paratest_def split: option.splits)
  from wait_loop_returns [OF r] obtain j where j: "r = outcome (env j)" by blast
  show "t = ''segmentation fault'' \<or> (\<exists>k. Error t \<in> set (pipe (env k)))"
  proof (cases "pipe (env j)")
    case Nil
    with j rc show ?thesis by (simp add: outcome_def)
  next
    case (Cons a as)
    with j rc have "a = Error t" by (simp add: outcome_def)
    with Cons have "Error t \<in> set (pipe (env j))" by simp
    then show ?thesis by blast
  qed
qed

theorem C1_witness:
  "waiting (toy_slow 0) \<and> waiting (toy_slow 1) \<and> waiting (toy_slow 2)
   \<and> ends_at toy_slow 0 3
   \<and> wait_loop toy_slow 0 = Some [Error ''ValueError:Residue not in structure'']
   \<and> wait_loop toy_slow 0 = wait_loop toy_slow 3
   \<and> (\<forall>k. waiting (toy_hang k)) \<and> paratest toy_hang = None"
proof -
  note c = C1_wait_loop_has_no_timeout
    [of toy_slow "[Error ''ValueError:Residue not in structure'']" 3 "''segmentation fault''"]
  have w: "\<forall>k < 3. waiting (toy_slow k)"
    by (simp add: waiting_def toy_slow_def)
  have e: "ends_at toy_slow 0 3"
    by (simp add: ends_at_def waiting_def toy_slow_def)
  have o: "[Error ''ValueError:Residue not in structure''] = outcome (toy_slow 3)"
    by (simp add: outcome_def toy_slow_def)
  from conjunct1 [OF c] e o
  have r: "wait_loop toy_slow 0 = Some [Error ''ValueError:Residue not in structure'']"
    by blast
  from mp [OF conjunct1 [OF conjunct2 [OF c]] w]
  have s: "wait_loop toy_slow 0 = wait_loop toy_slow 3" .
  have h: "\<forall>k. waiting (toy_hang k)"
    by (simp add: waiting_def toy_hang_def)
  from mp [OF conjunct1 [OF conjunct2 [OF conjunct2 [OF C1_wait_loop_has_no_timeout
            [of toy_hang "[]" 0 "[]"]]]] h]
  have n: "paratest toy_hang = None" .
  from w e r s h n show ?thesis by simp
qed

text \<open>
  C2. When the worker is found not alive at some round and no message was in the pipe
  at any round up to it, the wait loop ends and the caller receives the failure that the
  supervisor makes up, \<open>{'error': 'segmentation fault'}\<close>.
\<close>

theorem C2_dead_worker_gives_segmentation_fault:
  assumes "\<forall>k \<le> n. pipe (env k) = []" and "\<not> alive (env n)"
  shows "paratest env = Some (Error ''segmentation fault'')"
proof -
  define S where "S = {j. j \<le> n \<and> \<not> alive (env j)}"
  define j where "j = (LEAST j. j \<in> S)"
  have "n \<in> S" using assms(2) by (simp add: S_def)
  then have jS: "j \<in> S" and least: "\<And>i. i \<in> S \<Longrightarrow> j \<le> i"
    unfolding j_def by (auto intro: LeastI Least_le)
  from jS have jn: "j \<le> n" and dead: "\<not> alive (env j)" by (simp_all add: S_def)
  have "waiting (env i)" if "i < j" for i
  proof -
    from that jn have "i \<le> n" by simp
    moreover from that least [of i] have "i \<notin> S" by auto
    ultimately show ?thesis using assms(1) by (simp add: S_def waiting_def)
  qed
  with dead have "ends_at env 0 j" by (simp add: ends_at_def waiting_def)
  from wait_loop_ends [OF this] assms(1) jn
  have "wait_loop env 0 = Some [Error ''segmentation fault'']"
    by (simp add: outcome_def)
  then show ?thesis by (simp add: paratest_def)
qed

theorem C2_witness:
  "pipe (toy_crash 0) = [] \<and> pipe (toy_crash 1) = [] \<and> pipe (toy_crash 2) = []
   \<and> alive (toy_crash 1) \<and> \<not> alive (toy_crash 2)
   \<and> paratest toy_crash = Some (Error ''segmentation fault'')"
proof -
  have silent: "\<forall>k \<le> 2. pipe (toy_crash k) = []" and dead: "\<not> alive (toy_crash 2)"
    by (simp_all add: toy_crash_def)
  have obs: "pipe (toy_crash 0) = [] \<and> pipe (toy_crash 1) = [] \<and> pipe (toy_crash 2) = []
      \<and> alive (toy_crash 1) \<and> \<not> alive (toy_crash 2)"
    by (simp add: toy_crash_def)
  from C2_dead_worker_gives_segmentation_fault [OF silent dead]
  have "paratest toy_crash = Some (Error ''segmentation fault'')" .
  with obs show ?thesis by (intro conjI) (elim conjE, assumption)+
qed

end
